theory Spec2Isabelle
  imports Main "HOL-Library.AList" "HOL-Library.Multiset" "HOL-Library.List_Lexorder"
begin

section \<open>JavaScript values\<close>

text \<open>
  The editor keeps its collection as whatever \<^verbatim>\<open>JSON.parse\<close> returned: the TypeScript
  annotation \<^verbatim>\<open>as GameEntry[]\<close> is erased at run time and nothing is validated. The
  model therefore works on untyped JavaScript values.

  \<^item> An object is the list of its own properties in insertion order, the order
    \<^verbatim>\<open>JSON.stringify\<close> writes them in. (JavaScript puts keys that look like array
    indices first; the records of the compatibility document have no such keys, and the
    model does not single them out.)
  \<^item> An array is the list of its elements; \<open>JUndefined\<close> stands for an empty slot. Own
    properties of an array that are not elements (a negative "index", a field written on
    an array) are not represented: no function of the program reads one back.
  \<^item> Numbers are the integers plus \<open>JNaN\<close>, which is what \<^verbatim>\<open>parseInt\<close> returns on text
    without digits. Enum ordinals are integers; fractions are not represented.
  \<^item> Property names resolved through the prototype chain are not represented.
\<close>

datatype json =
    JUndefined
  | JNull
  | JBool bool
  | JNum int
  | JNaN
  | JStr string
  | JArr "json list"
  | JObj "(string \<times> json) list"

datatype js_error = TypeError | SyntaxError | IOError

text \<open>\<^verbatim>\<open>v[k]\<close>: reading a property of \<^verbatim>\<open>undefined\<close> or \<^verbatim>\<open>null\<close> throws; a missing
  property reads as \<^verbatim>\<open>undefined\<close>.\<close>

fun get_prop :: "json \<Rightarrow> string \<Rightarrow> js_error + json" where
  "get_prop JUndefined k = Inl TypeError"
| "get_prop JNull k = Inl TypeError"
| "get_prop (JObj ps) k = Inr (case map_of ps k of None \<Rightarrow> JUndefined | Some v \<Rightarrow> v)"
| "get_prop v k = Inr JUndefined"

text \<open>\<^verbatim>\<open>v[k] = x\<close> in strict mode (a Svelte component is an ES module): writing a property
  of \<^verbatim>\<open>undefined\<close>, \<^verbatim>\<open>null\<close> or a primitive throws; on an object an existing key keeps
  its position and a new key goes last.\<close>

fun set_prop :: "json \<Rightarrow> string \<Rightarrow> json \<Rightarrow> js_error + json" where
  "set_prop (JObj ps) k x = Inr (JObj (AList.update k x ps))"
| "set_prop (JArr xs) k x = Inr (JArr xs)"
| "set_prop v k x = Inl TypeError"

text \<open>\<^verbatim>\<open>xs[i]\<close> on an array, for an integer \<open>i\<close>: out of range reads \<^verbatim>\<open>undefined\<close>.\<close>

definition index :: "json list \<Rightarrow> int \<Rightarrow> json" where
  "index xs i = (if 0 \<le> i \<and> i < int (length xs) then xs ! nat i else JUndefined)"

text \<open>\<^verbatim>\<open>xs[i] = x\<close> on an array. The array indices are the integers from 0 to
  \<^verbatim>\<open>2^32 - 2\<close>: in range the assignment replaces, at an index past the end it extends the
  array with empty slots. A negative \<open>i\<close> and an \<open>i\<close> of \<^verbatim>\<open>2^32 - 1 = 4294967295\<close> or more
  name a property that is not an element: the elements and the length stay.\<close>

definition assign_index :: "json list \<Rightarrow> int \<Rightarrow> json \<Rightarrow> json list" where
  "assign_index xs i x =
     (if 0 \<le> i \<and> i < int (length xs) then xs[nat i := x]
      else if int (length xs) \<le> i \<and> i < 4294967295
        then xs @ replicate (nat i - length xs) JUndefined @ [x]
      else xs)"

text \<open>\<^verbatim>\<open>[...v]\<close>: an array is copied, a string is spread into its characters, anything
  else is not iterable.\<close>

fun spread :: "json \<Rightarrow> js_error + json list" where
  "spread (JArr xs) = Inr xs"
| "spread (JStr s) = Inr (map (\<lambda>c. JStr [c]) s)"
| "spread v = Inl TypeError"

text \<open>\<^verbatim>\<open>xs.splice(i, 1)\<close>: a negative start counts from the end and is clamped at 0, a
  start past the end is clamped at the length; one element is deleted if there is one at
  the start position.\<close>

definition splice1 :: "json list \<Rightarrow> int \<Rightarrow> json list" where
  "splice1 xs i =
     (let n = int (length xs);
          start = (if i < 0 then max (n + i) 0 else min i n)
      in take (nat start) xs @ drop (Suc (nat start)) xs)"

text \<open>Truthiness, as tested by \<^verbatim>\<open>if (v)\<close> and \<^verbatim>\<open>!v\<close>.\<close>

fun truthy :: "json \<Rightarrow> bool" where
  "truthy JUndefined = False"
| "truthy JNull = False"
| "truthy (JBool b) = b"
| "truthy (JNum n) = (n \<noteq> 0)"
| "truthy JNaN = False"
| "truthy (JStr s) = (s \<noteq> [])"
| "truthy (JArr xs) = True"
| "truthy (JObj ps) = True"

subsection \<open>\<^verbatim>\<open>parseInt\<close>\<close>

text \<open>\<^verbatim>\<open>parseInt(text)\<close> without a radix: leading white space is skipped, a sign is read,
  a \<^verbatim>\<open>0x\<close> prefix selects radix 16, and the longest prefix of digits is the value; with
  no digit the result is \<^verbatim>\<open>NaN\<close>. White space is ASCII white space here.\<close>

definition is_ws :: "char \<Rightarrow> bool" where
  "is_ws c = (c \<in> set [CHR 0x09, CHR 0x0A, CHR 0x0B, CHR 0x0C, CHR 0x0D, CHR 0x20])"

definition digit_val :: "char \<Rightarrow> nat" where
  "digit_val c =
     (let n = (of_char c :: nat) in
      if 48 \<le> n \<and> n \<le> 57 then n - 48
      else if 97 \<le> n \<and> n \<le> 122 then n - 87
      else if 65 \<le> n \<and> n \<le> 90 then n - 55
      else 36)"

definition parse_digits :: "nat \<Rightarrow> string \<Rightarrow> json" where
  "parse_digits radix s =
     (let ds = takeWhile (\<lambda>c. digit_val c < radix) s
      in if ds = [] then JNaN
         else JNum (int (foldl (\<lambda>acc c. acc * radix + digit_val c) 0 ds)))"

definition negate :: "json \<Rightarrow> json" where
  "negate v = (case v of JNum n \<Rightarrow> JNum (- n) | _ \<Rightarrow> v)"

definition parse_unsigned :: "string \<Rightarrow> json" where
  "parse_unsigned s =
     (if take 2 s = ''0x'' \<or> take 2 s = ''0X'' then parse_digits 16 (drop 2 s)
      else parse_digits 10 s)"

definition parseInt :: "string \<Rightarrow> json" where
  "parseInt text =
     (let s = dropWhile is_ws text in
      case s of
        [] \<Rightarrow> JNaN
      | c # rest \<Rightarrow>
          if c = CHR ''-'' then negate (parse_unsigned rest)
          else if c = CHR ''+'' then parse_unsigned rest
          else parse_unsigned s)"

section \<open>The state of the editor\<close>

datatype toast_kind = Success | Error | Info | Warning

record toast =
  message :: string
  kind :: toast_kind
  duration :: nat

text \<open>
  The component's variables \<^verbatim>\<open>items\<close>, \<^verbatim>\<open>selectedItem\<close>, \<^verbatim>\<open>currentFilePath\<close> and
  \<^verbatim>\<open>toasts\<close>, together with the part of the world the component reads and writes:
  the text files (\<open>files\<close>, \<open>None\<close> for a path that cannot be read) and the paths
  that refuse a write or a \<^verbatim>\<open>mkdir\<close> (\<open>unwritable\<close>). A toast's identifier (the clock) and
  its removal after \<open>duration\<close> milliseconds are not modelled.
\<close>

record state =
  items :: "json list"
  selectedItem :: "int option"
  currentFilePath :: "string option"
  toasts :: "toast list"
  files :: "string \<Rightarrow> string option"
  unwritable :: "string \<Rightarrow> bool"

definition showToast :: "state \<Rightarrow> string \<Rightarrow> toast_kind \<Rightarrow> state" where
  "showToast s msg k = s\<lparr>toasts := toasts s @ [\<lparr>message = msg, kind = k, duration = 6000\<rparr>]\<rparr>"

definition selectItem :: "state \<Rightarrow> int \<Rightarrow> state" where
  "selectItem s i = s\<lparr>selectedItem := Some i\<rparr>"

section \<open>Field and array edits\<close>

text \<open>
  An edit is an event handler: an exception it throws is not caught by the component
  (\<open>Inl\<close>), and every handler throws, if at all, before its first write to the state.
\<close>

definition updateField :: "state \<Rightarrow> string \<Rightarrow> json \<Rightarrow> js_error + state" where
  "updateField s field v =
     (case selectedItem s of
        None \<Rightarrow> Inr s
      | Some i \<Rightarrow>
          (case set_prop (index (items s) i) field v of
             Inl e \<Rightarrow> Inl e
           | Inr r \<Rightarrow> Inr (s\<lparr>items := assign_index (items s) i r\<rparr>)))"

text \<open>\<open>target\<close> is \<^verbatim>\<open>e.target\<close> reduced to its \<^verbatim>\<open>value\<close>, \<open>None\<close> when the event has no
  target.\<close>

definition handleSelectChange :: "state \<Rightarrow> string option \<Rightarrow> string \<Rightarrow> js_error + state" where
  "handleSelectChange s target field =
     (case target of
        None \<Rightarrow> Inr s
      | Some text \<Rightarrow> if text \<noteq> [] then updateField s field (parseInt text) else Inr s)"

definition selected_field :: "state \<Rightarrow> string \<Rightarrow> js_error + json" where
  "selected_field s field =
     (case selectedItem s of
        None \<Rightarrow> Inl TypeError
      | Some i \<Rightarrow> get_prop (index (items s) i) field)"

definition addArrayItem :: "state \<Rightarrow> string \<Rightarrow> json \<Rightarrow> js_error + state" where
  "addArrayItem s field template =
     (if selectedItem s \<noteq> None then
        (case selected_field s field of
           Inl e \<Rightarrow> Inl e
         | Inr v \<Rightarrow>
             (case spread v of
                Inl e \<Rightarrow> Inl e
              | Inr currentArray \<Rightarrow> updateField s field (JArr (currentArray @ [template]))))
      else Inr s)"

definition removeArrayItem :: "state \<Rightarrow> string \<Rightarrow> int \<Rightarrow> js_error + state" where
  "removeArrayItem s field i =
     (if selectedItem s \<noteq> None then
        (case selected_field s field of
           Inl e \<Rightarrow> Inl e
         | Inr v \<Rightarrow>
             (case spread v of
                Inl e \<Rightarrow> Inl e
              | Inr currentArray \<Rightarrow> updateField s field (JArr (splice1 currentArray i))))
      else Inr s)"

definition updateArrayItem :: "state \<Rightarrow> string \<Rightarrow> int \<Rightarrow> json \<Rightarrow> js_error + state" where
  "updateArrayItem s field i v =
     (if selectedItem s \<noteq> None then
        (case selected_field s field of
           Inl e \<Rightarrow> Inl e
         | Inr a \<Rightarrow>
             (case spread a of
                Inl e \<Rightarrow> Inl e
              | Inr currentArray \<Rightarrow> updateField s field (JArr (assign_index currentArray i v))))
      else Inr s)"

section \<open>Loading and saving\<close>

subsection \<open>What the host provides\<close>

text \<open>
  \<^verbatim>\<open>JSON.parse\<close> (\<open>None\<close> when it throws a \<^verbatim>\<open>SyntaxError\<close>), \<^verbatim>\<open>JSON.stringify(v, null, n)\<close>,
  \<^verbatim>\<open>path.appConfigDir()\<close> and \<^verbatim>\<open>path.join\<close> belong to the JavaScript engine and to Tauri;
  the functions of the component take them as a parameter.
\<close>

record host =
  JSON_parse :: "string \<Rightarrow> json option"
  JSON_stringify :: "json \<Rightarrow> nat \<Rightarrow> string"
  appConfigDir :: string
  path_join :: "string \<Rightarrow> string \<Rightarrow> string"

definition configPath :: "host \<Rightarrow> string" where
  "configPath H = path_join H (appConfigDir H) ''config.json''"

subsection \<open>Comparing names\<close>

text \<open>
  Modelled from the spec: \<^verbatim>\<open>String.prototype.localeCompare\<close> is a function of the
  JavaScript engine, absent from the repository. The specification describes the
  comparison it performs as case-insensitive and lexicographic: both strings are folded
  to lower case (ASCII letters) and compared character by character; the result is
  negative, zero or positive.
\<close>

definition fold_case :: "char \<Rightarrow> nat" where
  "fold_case c = (let n = (of_char c :: nat) in if 65 \<le> n \<and> n \<le> 90 then n + 32 else n)"

definition localeCompare :: "string \<Rightarrow> string \<Rightarrow> int" where
  "localeCompare a b =
     (let x = map fold_case a; y = map fold_case b
      in if x < y then - 1 else if y < x then 1 else 0)"

text \<open>\<^verbatim>\<open>String(v)\<close>, the conversion \<^verbatim>\<open>localeCompare\<close> applies to its argument.\<close>

fun show_nat :: "nat \<Rightarrow> string" where
  "show_nat n =
     (if n < 10 then [char_of (48 + n)] else show_nat (n div 10) @ [char_of (48 + n mod 10)])"

definition show_int :: "int \<Rightarrow> string" where
  "show_int i = (if i < 0 then CHR ''-'' # show_nat (nat (- i)) else show_nat (nat i))"

fun ToString :: "json \<Rightarrow> string"
  and join_elems :: "json list \<Rightarrow> string" where
  "ToString JUndefined = ''undefined''"
| "ToString JNull = ''null''"
| "ToString (JBool b) = (if b then ''true'' else ''false'')"
| "ToString (JNum n) = show_int n"
| "ToString JNaN = ''NaN''"
| "ToString (JStr s) = s"
| "ToString (JArr xs) = join_elems xs"
| "ToString (JObj ps) = ''[object Object]''"
| "join_elems [] = []"
| "join_elems [x] = (if x = JUndefined \<or> x = JNull then [] else ToString x)"
| "join_elems (x # y # ys) =
     (if x = JUndefined \<or> x = JNull then [] else ToString x) @ '','' @ join_elems (y # ys)"

text \<open>The comparator \<^verbatim>\<open>(a, b) => a.Name.localeCompare(b.Name)\<close>: the receiver's \<^verbatim>\<open>Name\<close>
  has to be a string (only strings have the method), the argument's \<^verbatim>\<open>Name\<close> is
  converted to one.\<close>

definition compareNames :: "json \<Rightarrow> json \<Rightarrow> js_error + int" where
  "compareNames a b =
     (case get_prop a ''Name'' of
        Inl e \<Rightarrow> Inl e
      | Inr an \<Rightarrow>
          (case an of
             JStr s \<Rightarrow>
               (case get_prop b ''Name'' of
                  Inl e \<Rightarrow> Inl e
                | Inr bn \<Rightarrow> Inr (localeCompare s (ToString bn)))
           | _ \<Rightarrow> Inl TypeError))"

subsection \<open>\<^verbatim>\<open>Array.prototype.sort\<close> with the comparator\<close>

text \<open>
  ECMAScript requires the sort to be stable, to put \<^verbatim>\<open>undefined\<close> last without
  comparing it, and leaves the sequence of comparator calls to the engine. The model is
  a stable insertion sort: each element, taken from left to right, is the receiver
  \<open>a\<close> of the comparisons that place it in the sorted prefix. An exception thrown by
  the comparator ends the sort. An array of fewer than two defined elements is never
  compared.
\<close>

fun insertSorted :: "json \<Rightarrow> json list \<Rightarrow> js_error + json list" where
  "insertSorted x [] = Inr [x]"
| "insertSorted x (y # ys) =
     (case compareNames x y of
        Inl e \<Rightarrow> Inl e
      | Inr c \<Rightarrow>
          if c < 0 then Inr (x # y # ys)
          else (case insertSorted x ys of Inl e \<Rightarrow> Inl e | Inr zs \<Rightarrow> Inr (y # zs)))"

fun sortLoop :: "json list \<Rightarrow> json list \<Rightarrow> js_error + json list" where
  "sortLoop acc [] = Inr acc"
| "sortLoop acc (x # xs) =
     (case insertSorted x acc of Inl e \<Rightarrow> Inl e | Inr acc' \<Rightarrow> sortLoop acc' xs)"

definition array_sort :: "json list \<Rightarrow> js_error + json list" where
  "array_sort xs =
     (case sortLoop [] (filter (\<lambda>x. x \<noteq> JUndefined) xs) of
        Inl e \<Rightarrow> Inl e
      | Inr ys \<Rightarrow> Inr (ys @ filter (\<lambda>x. x = JUndefined) xs))"

subsection \<open>The default for \<^verbatim>\<open>DevOnly\<close>\<close>

definition backfillDevOnly :: "json \<Rightarrow> js_error + json" where
  "backfillDevOnly item =
     (case get_prop item ''DevOnly'' of
        Inl e \<Rightarrow> Inl e
      | Inr v \<Rightarrow> if v = JUndefined then set_prop item ''DevOnly'' (JBool False) else Inr item)"

text \<open>\<^verbatim>\<open>forEach\<close> with a callback that rewrites the element it is given: left to right,
  stopping at the first exception.\<close>

fun forEach :: "(json \<Rightarrow> js_error + json) \<Rightarrow> json list \<Rightarrow> js_error + json list" where
  "forEach f [] = Inr []"
| "forEach f (x # xs) =
     (case f x of
        Inl e \<Rightarrow> Inl e
      | Inr y \<Rightarrow> (case forEach f xs of Inl e \<Rightarrow> Inl e | Inr ys \<Rightarrow> Inr (y # ys)))"

subsection \<open>The remembered path\<close>

definition loadAppConfig :: "host \<Rightarrow> state \<Rightarrow> json" where
  "loadAppConfig H s =
     (case files s (configPath H) of
        None \<Rightarrow> JObj []
      | Some configContent \<Rightarrow>
          (case JSON_parse H configContent of None \<Rightarrow> JObj [] | Some config \<Rightarrow> config))"

text \<open>A failure of \<^verbatim>\<open>mkdir\<close> or of the write is caught and logged; the state is then
  not changed.\<close>

definition saveAppConfig :: "host \<Rightarrow> state \<Rightarrow> json \<Rightarrow> state" where
  "saveAppConfig H s config =
     (if unwritable s (appConfigDir H) then s
      else if unwritable s (configPath H) then s
      else s\<lparr>files := (files s)(configPath H \<mapsto> JSON_stringify H config 2)\<rparr>)"

subsection \<open>\<^verbatim>\<open>loadJsonData\<close>\<close>

text \<open>
  How the \<^verbatim>\<open>try\<close> block of \<^verbatim>\<open>loadJsonData\<close> ends, with the state it has reached: it
  runs to its last statement, it returns early because the dialog was cancelled, or it
  throws.
\<close>

datatype outcome = Completed state | Returned state | Threw js_error state

text \<open>From \<^verbatim>\<open>if (filePath)\<close> to the end of the \<^verbatim>\<open>try\<close> block: the path is remembered
  first, then the text is parsed, defaulted and sorted, and only then assigned to
  \<^verbatim>\<open>items\<close>.\<close>

definition loadJsonData_parse :: "host \<Rightarrow> state \<Rightarrow> string \<Rightarrow> string \<Rightarrow> outcome" where
  "loadJsonData_parse H s jsonContent filePath =
     (let s1 = (if filePath \<noteq> []
                then saveAppConfig H (s\<lparr>currentFilePath := Some filePath\<rparr>)
                       (JObj [(''lastUsedPath'', JStr filePath)])
                else s)
      in case JSON_parse H jsonContent of
           None \<Rightarrow> Threw SyntaxError s1
         | Some parsed \<Rightarrow>
             (case parsed of
                JArr parsedItems \<Rightarrow>
                  (case forEach backfillDevOnly parsedItems of
                     Inl e \<Rightarrow> Threw e s1
                   | Inr filled \<Rightarrow>
                       (case array_sort filled of
                          Inl e \<Rightarrow> Threw e s1
                        | Inr sortedItems \<Rightarrow>
                            Completed (showToast (s1\<lparr>items := sortedItems\<rparr>)
                                         ''Data loaded successfully'' Success)))
              | _ \<Rightarrow> Threw TypeError s1))"

text \<open>The open dialog and the read of the chosen file; \<open>selected\<close> is the dialog's
  answer.\<close>

definition loadJsonData_pick :: "host \<Rightarrow> state \<Rightarrow> string option \<Rightarrow> outcome" where
  "loadJsonData_pick H s selected =
     (case selected of
        None \<Rightarrow> Returned s
      | Some p \<Rightarrow>
          if p = [] then Returned s
          else (case files s p of
                  None \<Rightarrow> Threw IOError s
                | Some jsonContent \<Rightarrow> loadJsonData_parse H s jsonContent p))"

definition loadJsonData_try :: "host \<Rightarrow> state \<Rightarrow> string option \<Rightarrow> outcome" where
  "loadJsonData_try H s selected =
     (case get_prop (loadAppConfig H s) ''lastUsedPath'' of
        Inl e \<Rightarrow> Threw e s
      | Inr lastUsedPath \<Rightarrow>
          if truthy lastUsedPath then
            (case lastUsedPath of
               JStr p \<Rightarrow>
                 (case files s p of
                    Some jsonContent \<Rightarrow> loadJsonData_parse H s jsonContent p
                  | None \<Rightarrow> loadJsonData_pick H s selected)
             | _ \<Rightarrow> loadJsonData_pick H s selected)
          else loadJsonData_pick H s selected)"

definition loadJsonData :: "host \<Rightarrow> state \<Rightarrow> string option \<Rightarrow> state" where
  "loadJsonData H s selected =
     (case loadJsonData_try H s selected of
        Completed s' \<Rightarrow> s'
      | Returned s' \<Rightarrow> s'
      | Threw e s' \<Rightarrow> showToast s' ''Failed to load data'' Error)"

subsection \<open>Saving\<close>

text \<open>\<open>selectedPath\<close> is the answer of the save dialog.\<close>

definition saveAsJsonData :: "host \<Rightarrow> state \<Rightarrow> string option \<Rightarrow> state" where
  "saveAsJsonData H s selectedPath =
     (let jsonContent = JSON_stringify H (JArr (items s)) 2 in
      case selectedPath of
        None \<Rightarrow> s
      | Some p \<Rightarrow>
          if p = [] then s
          else if unwritable s p then showToast s ''Failed to save data'' Error
          else showToast
                 (saveAppConfig H (s\<lparr>files := (files s)(p \<mapsto> jsonContent), currentFilePath := Some p\<rparr>)
                    (JObj [(''lastUsedPath'', JStr p)]))
                 ''Data saved successfully'' Success)"

definition saveToCurrentPath :: "host \<Rightarrow> state \<Rightarrow> string option \<Rightarrow> state" where
  "saveToCurrentPath H s selectedPath =
     (case currentFilePath s of
        None \<Rightarrow> saveAsJsonData H s selectedPath
      | Some p \<Rightarrow>
          if p = [] then saveAsJsonData H s selectedPath
          else if unwritable s p then showToast s ''Failed to save data'' Error
          else showToast (s\<lparr>files := (files s)(p \<mapsto> JSON_stringify H (JArr (items s)) 2)\<rparr>)
                 ''Data saved successfully'' Success)"

definition saveJsonData :: "host \<Rightarrow> state \<Rightarrow> string option \<Rightarrow> state" where
  "saveJsonData H s selectedPath =
     (case currentFilePath s of
        None \<Rightarrow> saveAsJsonData H s selectedPath
      | Some p \<Rightarrow>
          if p = [] then saveAsJsonData H s selectedPath
          else saveToCurrentPath H s selectedPath)"

section \<open>The bullet-point edits on an explicit store\<close>

text \<open>
  Whether two states share a container is a question about references, which the values
  above do not have. For the three bullet-point handlers the arrays and objects live in
  a store: a reference is a position in the list of cells, and an allocation appends a
  cell. A handler that throws has written nothing that the state can reach. Svelte's
  reactive proxies forward every read and write to the objects behind them and are not
  modelled.
\<close>

datatype val =
    VUndefined
  | VNull
  | VBool bool
  | VNum int
  | VNaN
  | VStr string
  | VRef nat

datatype cell = ArrCell "val list" | ObjCell "(string \<times> val) list"

record store_state =
  store :: "cell list"
  items_ref :: nat
  selection :: "int option"

definition cell_at :: "cell list \<Rightarrow> nat \<Rightarrow> cell option" where
  "cell_at st a = (if a < length st then Some (st ! a) else None)"

definition alloc :: "cell list \<Rightarrow> cell \<Rightarrow> cell list \<times> nat" where
  "alloc st c = (st @ [c], length st)"

definition vindex :: "val list \<Rightarrow> int \<Rightarrow> val" where
  "vindex xs i = (if 0 \<le> i \<and> i < int (length xs) then xs ! nat i else VUndefined)"

definition vassign_index :: "val list \<Rightarrow> int \<Rightarrow> val \<Rightarrow> val list" where
  "vassign_index xs i x =
     (if 0 \<le> i \<and> i < int (length xs) then xs[nat i := x]
      else if int (length xs) \<le> i \<and> i < 4294967295
        then xs @ replicate (nat i - length xs) VUndefined @ [x]
      else xs)"

definition vsplice1 :: "val list \<Rightarrow> int \<Rightarrow> val list" where
  "vsplice1 xs i =
     (let n = int (length xs);
          start = (if i < 0 then max (n + i) 0 else min i n)
      in take (nat start) xs @ drop (Suc (nat start)) xs)"

text \<open>\<^verbatim>\<open>v[k]\<close> in the store.\<close>

definition load_prop :: "cell list \<Rightarrow> val \<Rightarrow> string \<Rightarrow> js_error + val" where
  "load_prop st v k =
     (case v of
        VUndefined \<Rightarrow> Inl TypeError
      | VNull \<Rightarrow> Inl TypeError
      | VRef a \<Rightarrow>
          (case cell_at st a of
             Some (ObjCell ps) \<Rightarrow> Inr (case map_of ps k of None \<Rightarrow> VUndefined | Some x \<Rightarrow> x)
           | Some (ArrCell xs) \<Rightarrow> Inr VUndefined
           | None \<Rightarrow> Inl TypeError)
      | _ \<Rightarrow> Inr VUndefined)"

text \<open>\<^verbatim>\<open>v[k] = x\<close> in the store: the object that \<open>v\<close> refers to is changed in place.\<close>

definition store_prop :: "cell list \<Rightarrow> val \<Rightarrow> string \<Rightarrow> val \<Rightarrow> js_error + cell list" where
  "store_prop st v k x =
     (case v of
        VRef a \<Rightarrow>
          (case cell_at st a of
             Some (ObjCell ps) \<Rightarrow> Inr (st[a := ObjCell (AList.update k x ps)])
           | Some (ArrCell xs) \<Rightarrow> Inr st
           | None \<Rightarrow> Inl TypeError)
      | _ \<Rightarrow> Inl TypeError)"

text \<open>The elements that \<^verbatim>\<open>[...v]\<close> copies.\<close>

definition elems :: "cell list \<Rightarrow> val \<Rightarrow> js_error + val list" where
  "elems st v =
     (case v of
        VRef a \<Rightarrow> (case cell_at st a of Some (ArrCell xs) \<Rightarrow> Inr xs | _ \<Rightarrow> Inl TypeError)
      | VStr s \<Rightarrow> Inr (map (\<lambda>c. VStr [c]) s)
      | _ \<Rightarrow> Inl TypeError)"

text \<open>\<^verbatim>\<open>v.push(x)\<close> and \<^verbatim>\<open>v.splice(i, 1)\<close>: only an array has the method, and the array
  that \<open>v\<close> refers to is changed in place.\<close>

definition push :: "cell list \<Rightarrow> val \<Rightarrow> val \<Rightarrow> js_error + cell list" where
  "push st v x =
     (case v of
        VRef a \<Rightarrow>
          (case cell_at st a of
             Some (ArrCell xs) \<Rightarrow> Inr (st[a := ArrCell (xs @ [x])])
           | _ \<Rightarrow> Inl TypeError)
      | _ \<Rightarrow> Inl TypeError)"

definition splice :: "cell list \<Rightarrow> val \<Rightarrow> int \<Rightarrow> js_error + cell list" where
  "splice st v i =
     (case v of
        VRef a \<Rightarrow>
          (case cell_at st a of
             Some (ArrCell xs) \<Rightarrow> Inr (st[a := ArrCell (vsplice1 xs i)])
           | _ \<Rightarrow> Inl TypeError)
      | _ \<Rightarrow> Inl TypeError)"

text \<open>\<^verbatim>\<open>items[selectedItem]\<close>, for a selection that is not \<^verbatim>\<open>null\<close>.\<close>

definition selected_record :: "store_state \<Rightarrow> int \<Rightarrow> val" where
  "selected_record S i =
     (case cell_at (store S) (items_ref S) of
        Some (ArrCell xs) \<Rightarrow> vindex xs i
      | _ \<Rightarrow> VUndefined)"

definition updateField_store :: "store_state \<Rightarrow> string \<Rightarrow> val \<Rightarrow> js_error + store_state" where
  "updateField_store S field v =
     (case selection S of
        None \<Rightarrow> Inr S
      | Some i \<Rightarrow>
          (case store_prop (store S) (selected_record S i) field v of
             Inl e \<Rightarrow> Inl e
           | Inr st \<Rightarrow> Inr (S\<lparr>store := st\<rparr>)))"

text \<open>\<^verbatim>\<open>const setupDetails = [...items[selectedItem].SetupDetails]\<close>, the first statement of
  the three handlers: the elements copied and the store with the copy allocated; the
  copy is the last cell.\<close>

definition copySetupDetails :: "store_state \<Rightarrow> int \<Rightarrow> js_error + (val list \<times> cell list \<times> nat)" where
  "copySetupDetails S i =
     (case load_prop (store S) (selected_record S i) ''SetupDetails'' of
        Inl e \<Rightarrow> Inl e
      | Inr sd \<Rightarrow>
          (case elems (store S) sd of
             Inl e \<Rightarrow> Inl e
           | Inr xs \<Rightarrow> (case alloc (store S) (ArrCell xs) of (st, a) \<Rightarrow> Inr (xs, st, a))))"

definition updateBulletPoint :: "store_state \<Rightarrow> int \<Rightarrow> int \<Rightarrow> string \<Rightarrow> js_error + store_state" where
  "updateBulletPoint S setupIndex bulletIndex v =
     (case selection S of
        None \<Rightarrow> Inr S
      | Some i \<Rightarrow>
          (case copySetupDetails S i of
             Inl e \<Rightarrow> Inl e
           | Inr (setupDetails, st1, a1) \<Rightarrow>
               (case load_prop st1 (vindex setupDetails setupIndex) ''BulletPoints'' of
                  Inl e \<Rightarrow> Inl e
                | Inr bp \<Rightarrow>
                    (case elems st1 bp of
                       Inl e \<Rightarrow> Inl e
                     | Inr bulletPoints \<Rightarrow>
                         (case alloc st1 (ArrCell (vassign_index bulletPoints bulletIndex (VStr v))) of
                            (st2, a2) \<Rightarrow>
                              (case store_prop st2 (vindex setupDetails setupIndex)
                                      ''BulletPoints'' (VRef a2) of
                                 Inl e \<Rightarrow> Inl e
                               | Inr st3 \<Rightarrow>
                                   updateField_store (S\<lparr>store := st3\<rparr>)
                                     ''SetupDetails'' (VRef a1)))))))"

definition addBulletPoint :: "store_state \<Rightarrow> int \<Rightarrow> js_error + store_state" where
  "addBulletPoint S setupIndex =
     (case selection S of
        None \<Rightarrow> Inr S
      | Some i \<Rightarrow>
          (case copySetupDetails S i of
             Inl e \<Rightarrow> Inl e
           | Inr (setupDetails, st1, a1) \<Rightarrow>
               (case load_prop st1 (vindex setupDetails setupIndex) ''BulletPoints'' of
                  Inl e \<Rightarrow> Inl e
                | Inr bp \<Rightarrow>
                    (case push st1 bp (VStr []) of
                       Inl e \<Rightarrow> Inl e
                     | Inr st2 \<Rightarrow>
                         updateField_store (S\<lparr>store := st2\<rparr>) ''SetupDetails'' (VRef a1)))))"

definition removeBulletPoint :: "store_state \<Rightarrow> int \<Rightarrow> int \<Rightarrow> js_error + store_state" where
  "removeBulletPoint S setupIndex bulletIndex =
     (case selection S of
        None \<Rightarrow> Inr S
      | Some i \<Rightarrow>
          (case copySetupDetails S i of
             Inl e \<Rightarrow> Inl e
           | Inr (setupDetails, st1, a1) \<Rightarrow>
               (case load_prop st1 (vindex setupDetails setupIndex) ''BulletPoints'' of
                  Inl e \<Rightarrow> Inl e
                | Inr bp \<Rightarrow>
                    (case splice st1 bp bulletIndex of
                       Inl e \<Rightarrow> Inl e
                     | Inr st2 \<Rightarrow>
                         updateField_store (S\<lparr>store := st2\<rparr>) ''SetupDetails'' (VRef a1)))))"

text \<open>The bullet-point list that setup detail \<open>j\<close> of record \<open>i\<close> refers to, and the
  setup detail itself, as the store has them.\<close>

definition setupDetail_ref :: "store_state \<Rightarrow> int \<Rightarrow> int \<Rightarrow> js_error + val" where
  "setupDetail_ref S i j =
     (case load_prop (store S) (selected_record S i) ''SetupDetails'' of
        Inl e \<Rightarrow> Inl e
      | Inr sd \<Rightarrow> (case elems (store S) sd of Inl e \<Rightarrow> Inl e | Inr xs \<Rightarrow> Inr (vindex xs j)))"

definition bulletPoints_ref :: "store_state \<Rightarrow> int \<Rightarrow> int \<Rightarrow> js_error + val" where
  "bulletPoints_ref S i j =
     (case setupDetail_ref S i j of
        Inl e \<Rightarrow> Inl e
      | Inr d \<Rightarrow> load_prop (store S) d ''BulletPoints'')"

section \<open>Example documents and states\<close>

text \<open>
  The documents of the examples. The host of the examples knows \<^verbatim>\<open>JSON.parse\<close> and
  \<^verbatim>\<open>JSON.stringify\<close> on these texts and values only, as a table; every other text is
  rejected and every other value is written as \<^verbatim>\<open>null\<close>.
\<close>

definition doc_fruit :: string where
  \<open>doc_fruit = ''[{"Name":"Banana"},{"Name":"apple","DevOnly":true},{"Name":"Cherry","Notes":"x"}]''\<close>

definition fruit_parsed :: "json list" where
  "fruit_parsed =
     [JObj [(''Name'', JStr ''Banana'')],
      JObj [(''Name'', JStr ''apple''), (''DevOnly'', JBool True)],
      JObj [(''Name'', JStr ''Cherry''), (''Notes'', JStr ''x'')]]"

definition fruit_loaded :: "json list" where
  "fruit_loaded =
     [JObj [(''Name'', JStr ''apple''), (''DevOnly'', JBool True)],
      JObj [(''Name'', JStr ''Banana''), (''DevOnly'', JBool False)],
      JObj [(''Name'', JStr ''Cherry''), (''Notes'', JStr ''x''), (''DevOnly'', JBool False)]]"

definition line :: "string \<Rightarrow> string" where
  "line t = t @ [CHR 0x0A]"

definition doc_fruit_saved :: string where
  \<open>doc_fruit_saved = concat
     [line ''['',
      line ''  {'', line ''    "Name": "apple",'', line ''    "DevOnly": true'', line ''  },'',
      line ''  {'', line ''    "Name": "Banana",'', line ''    "DevOnly": false'', line ''  },'',
      line ''  {'', line ''    "Name": "Cherry",'', line ''    "Notes": "x",'',
      line ''    "DevOnly": false'', line ''  }'',
      '']'']\<close>

text \<open>A document whose first record has no \<^verbatim>\<open>Name\<close>, the collection it loads to, and the
  text a save of that collection writes.\<close>

definition doc_mixed :: string where
  \<open>doc_mixed = ''[{"Id":"u"},{"Name":"a"}]''\<close>

definition mixed_parsed :: "json list" where
  "mixed_parsed = [JObj [(''Id'', JStr ''u'')], JObj [(''Name'', JStr ''a'')]]"

definition mixed_loaded :: "json list" where
  "mixed_loaded =
     [JObj [(''Name'', JStr ''a''), (''DevOnly'', JBool False)],
      JObj [(''Id'', JStr ''u''), (''DevOnly'', JBool False)]]"

definition doc_mixed_saved :: string where
  \<open>doc_mixed_saved = concat
     [line ''['',
      line ''  {'', line ''    "Name": "a",'', line ''    "DevOnly": false'', line ''  },'',
      line ''  {'', line ''    "Id": "u",'', line ''    "DevOnly": false'', line ''  }'',
      '']'']\<close>

definition doc_single :: string where
  \<open>doc_single = ''[{"Name":"apple"}]''\<close>

definition doc_nameless :: string where
  \<open>doc_nameless = ''[{"Id":"x1"}]''\<close>

definition doc_two_nameless :: string where
  \<open>doc_two_nameless = ''[{"Id":"x1"},{"Id":"x2"}]''\<close>

definition doc_broken :: string where
  \<open>doc_broken = ''[{"Name":''\<close>

definition config_for :: "string \<Rightarrow> json" where
  "config_for p = JObj [(''lastUsedPath'', JStr p)]"

definition config_text :: "string \<Rightarrow> string" where
  \<open>config_text p = concat [line ''{'', line (''  "lastUsedPath": "'' @ p @ ''"''), ''}'']\<close>

definition example_parse :: "string \<Rightarrow> json option" where
  "example_parse t =
     (if t = doc_fruit then Some (JArr fruit_parsed)
      else if t = doc_fruit_saved then Some (JArr fruit_loaded)
      else if t = doc_mixed then Some (JArr mixed_parsed)
      else if t = doc_mixed_saved then Some (JArr mixed_loaded)
      else if t = doc_single then Some (JArr [JObj [(''Name'', JStr ''apple'')]])
      else if t = doc_nameless then Some (JArr [JObj [(''Id'', JStr ''x1'')]])
      else if t = doc_two_nameless
        then Some (JArr [JObj [(''Id'', JStr ''x1'')], JObj [(''Id'', JStr ''x2'')]])
      else if t = config_text ''/data/games.json'' then Some (config_for ''/data/games.json'')
      else if t = config_text ''/data/other.json'' then Some (config_for ''/data/other.json'')
      else None)"

definition example_stringify :: "json \<Rightarrow> nat \<Rightarrow> string" where
  "example_stringify v n =
     (if v = JArr fruit_loaded \<and> n = 2 then doc_fruit_saved
      else if v = JArr mixed_loaded \<and> n = 2 then doc_mixed_saved
      else if v = config_for ''/data/games.json'' \<and> n = 2 then config_text ''/data/games.json''
      else if v = config_for ''/data/other.json'' \<and> n = 2 then config_text ''/data/other.json''
      else ''null'')"

definition example_host :: host where
  "example_host =
     \<lparr>JSON_parse = example_parse, JSON_stringify = example_stringify,
      appConfigDir = ''/cfg'', path_join = (\<lambda>a b. a @ ''/'' @ b)\<rparr>"

text \<open>A session in which a record is selected, for the edits.\<close>

definition apple_record :: "(string \<times> json) list" where
  "apple_record =
     [(''Name'', JStr ''apple''),
      (''OverallStatus'', JNum 4),
      (''FeaturesNotEmulated'', JArr [JStr ''force feedback'', JStr ''card reader''])]"

definition editing :: state where
  "editing =
     \<lparr>items = [JObj apple_record, JObj [(''Name'', JStr ''Banana'')]],
      selectedItem = Some 0,
      currentFilePath = None,
      toasts = [],
      files = Map.empty,
      unwritable = (\<lambda>p. False)\<rparr>"

text \<open>A first start: no remembered path, one readable document, nothing loaded; and
  the state the first load is expected to reach.\<close>

definition fresh :: state where
  "fresh =
     \<lparr>items = [], selectedItem = None, currentFilePath = None, toasts = [],
      files = [''/data/games.json'' \<mapsto> doc_fruit],
      unwritable = (\<lambda>p. False)\<rparr>"

definition loaded :: state where
  "loaded =
     \<lparr>items = fruit_loaded, selectedItem = None,
      currentFilePath = Some ''/data/games.json'',
      toasts = [\<lparr>message = ''Data loaded successfully'', kind = Success, duration = 6000\<rparr>],
      files = [''/data/games.json'' \<mapsto> doc_fruit,
               ''/cfg/config.json'' \<mapsto> config_text ''/data/games.json''],
      unwritable = (\<lambda>p. False)\<rparr>"

text \<open>The first start on the document \<open>doc_mixed\<close>, and the state its load reaches.\<close>

definition fresh_mixed :: state where
  "fresh_mixed =
     \<lparr>items = [], selectedItem = None, currentFilePath = None, toasts = [],
      files = [''/data/games.json'' \<mapsto> doc_mixed],
      unwritable = (\<lambda>p. False)\<rparr>"

definition loaded_mixed :: state where
  "loaded_mixed =
     \<lparr>items = mixed_loaded, selectedItem = None,
      currentFilePath = Some ''/data/games.json'',
      toasts = [\<lparr>message = ''Data loaded successfully'', kind = Success, duration = 6000\<rparr>],
      files = [''/data/games.json'' \<mapsto> doc_mixed,
               ''/cfg/config.json'' \<mapsto> config_text ''/data/games.json''],
      unwritable = (\<lambda>p. False)\<rparr>"

text \<open>The editor started again after a save: nothing is loaded yet, the path is remembered
  and the document on disk has the text \<open>content\<close>.\<close>

definition restarted :: "string \<Rightarrow> state" where
  "restarted content =
     \<lparr>items = [], selectedItem = None, currentFilePath = None, toasts = [],
      files = [''/data/games.json'' \<mapsto> content,
               ''/cfg/config.json'' \<mapsto> config_text ''/data/games.json''],
      unwritable = (\<lambda>p. False)\<rparr>"

text \<open>A running session: the three records are loaded, the third one is selected, the
  path is remembered, and the document on disk now has the text \<open>content\<close>.\<close>

definition session_with :: "string \<Rightarrow> state" where
  "session_with content =
     \<lparr>items = fruit_loaded, selectedItem = Some 2,
      currentFilePath = Some ''/data/games.json'',
      toasts = [],
      files = [''/data/games.json'' \<mapsto> content,
               ''/cfg/config.json'' \<mapsto> config_text ''/data/games.json''],
      unwritable = (\<lambda>p. False)\<rparr>"


text \<open>
  A store for the bullet-point edits. Cell 0 is \<^verbatim>\<open>items\<close>; cell 1 is the selected record,
  whose setup details (cell 2) are the two objects in cells 3 and 5, with their
  bullet-point lists in cells 4 and 6; cells 7 and 8 are a second record and its empty
  list of setup details. \<open>bullets_added\<close> is the store after a bullet point was added to
  the first setup detail: cell 9 is new.
\<close>

definition bullets_store :: store_state where
  "bullets_store =
     \<lparr>store =
        [ArrCell [VRef 1, VRef 7],
         ObjCell [(''Name'', VStr ''apple''), (''SetupDetails'', VRef 2)],
         ArrCell [VRef 3, VRef 5],
         ObjCell [(''Category'', VStr ''BIOS''), (''Details'', VStr ''''), (''BulletPoints'', VRef 4)],
         ArrCell [VStr ''dump it''],
         ObjCell [(''Category'', VStr ''Input''), (''Details'', VStr ''''), (''BulletPoints'', VRef 6)],
         ArrCell [VStr ''map the keys''],
         ObjCell [(''Name'', VStr ''Banana''), (''SetupDetails'', VRef 8)],
         ArrCell []],
      items_ref = 0,
      selection = Some 0\<rparr>"

definition bullets_added :: store_state where
  "bullets_added =
     \<lparr>store =
        [ArrCell [VRef 1, VRef 7],
         ObjCell [(''Name'', VStr ''apple''), (''SetupDetails'', VRef 9)],
         ArrCell [VRef 3, VRef 5],
         ObjCell [(''Category'', VStr ''BIOS''), (''Details'', VStr ''''), (''BulletPoints'', VRef 4)],
         ArrCell [VStr ''dump it'', VStr ''''],
         ObjCell [(''Category'', VStr ''Input''), (''Details'', VStr ''''), (''BulletPoints'', VRef 6)],
         ArrCell [VStr ''map the keys''],
         ObjCell [(''Name'', VStr ''Banana''), (''SetupDetails'', VRef 8)],
         ArrCell [],
         ArrCell [VRef 3, VRef 5]],
      items_ref = 0,
      selection = Some 0\<rparr>"

section \<open>Vocabulary of the properties\<close>

text \<open>The \<^verbatim>\<open>Name\<close> of a record when it is a string, and the order of two named records
  under \<open>localeCompare\<close>.\<close>

definition nameOf :: "json \<Rightarrow> string option" where
  "nameOf x = (case get_prop x ''Name'' of Inr (JStr n) \<Rightarrow> Some n | _ \<Rightarrow> None)"

definition has_name :: "json \<Rightarrow> bool" where
  "has_name x = (nameOf x \<noteq> None)"

definition name_le :: "json \<Rightarrow> json \<Rightarrow> bool" where
  "name_le a b =
     (case nameOf a of
        None \<Rightarrow> False
      | Some m \<Rightarrow> (case nameOf b of None \<Rightarrow> False | Some n \<Rightarrow> localeCompare m n \<le> 0))"

definition nameKey :: "json \<Rightarrow> nat list" where
  "nameKey x = (case nameOf x of None \<Rightarrow> [] | Some n \<Rightarrow> map fold_case n)"

definition is_object :: "json \<Rightarrow> bool" where
  "is_object x = (case x of JObj ps \<Rightarrow> True | _ \<Rightarrow> False)"

text \<open>The state in which the \<^verbatim>\<open>try\<close> block of \<^verbatim>\<open>loadJsonData\<close> ends.\<close>

definition final_state :: "outcome \<Rightarrow> state" where
  "final_state out = (case out of Completed s \<Rightarrow> s | Returned s \<Rightarrow> s | Threw e s \<Rightarrow> s)"

section \<open>Properties of the edits\<close>

lemma update_same:
  "map_of ps k = Some v \<Longrightarrow> AList.update k v ps = ps"
  by (induction ps) auto

lemma updateField_object:
  assumes "selectedItem s = Some i" "0 \<le> i" "i < int (length (items s))"
    and "items s ! nat i = JObj ps"
  shows "updateField s field v =
           Inr (s\<lparr>items := (items s)[nat i := JObj (AList.update field v ps)]\<rparr>)"
  using assms by (simp add: updateField_def index_def assign_index_def)

lemma selected_field_object:
  assumes "selectedItem s = Some i" "0 \<le> i" "i < int (length (items s))"
    and "items s ! nat i = JObj ps" "map_of ps field = Some v"
  shows "selected_field s field = Inr v"
  using assms by (simp add: selected_field_def index_def)

lemma parseInt_not_a_number: "parseInt ''not-a-number'' = JNaN"
  by (simp add: parseInt_def is_ws_def parse_unsigned_def parse_digits_def digit_val_def)

text \<open>
  C2, as the code has it. A missing event target and an empty text are ignored: no
  mutation and no error. Every non-empty text is passed through \<^verbatim>\<open>parseInt\<close> and the
  result is forwarded to \<open>updateField\<close> whether or not the text was a number; when a
  record is selected its named field then holds that result, which is \<open>JNaN\<close> for a text
  without a leading integer.
\<close>

theorem C2_select_change:
  "handleSelectChange s None field = Inr s \<and>
   handleSelectChange s (Some []) field = Inr s \<and>
   (text \<noteq> [] \<longrightarrow>
      handleSelectChange s (Some text) field = updateField s field (parseInt text)) \<and>
   (text \<noteq> [] \<and> selectedItem s = Some i \<and> 0 \<le> i \<and> i < int (length (items s)) \<and>
    items s ! nat i = JObj ps \<longrightarrow>
      handleSelectChange s (Some text) field =
        Inr (s\<lparr>items := (items s)[nat i := JObj (AList.update field (parseInt text) ps)]\<rparr>))"
  by (simp add: handleSelectChange_def updateField_object)

theorem C2_select_change_witness:
  "handleSelectChange editing (Some ''3'') ''OverallStatus'' =
     Inr (editing\<lparr>items :=
       [JObj [(''Name'', JStr ''apple''), (''OverallStatus'', JNum 3),
              (''FeaturesNotEmulated'', JArr [JStr ''force feedback'', JStr ''card reader''])],
        JObj [(''Name'', JStr ''Banana'')]]\<rparr>)"
  using C2_select_change [of editing "''OverallStatus''" "''3''" 0 apple_record]
  by (simp add: editing_def apple_record_def parseInt_def is_ws_def parse_unsigned_def
      parse_digits_def digit_val_def updateField_def index_def assign_index_def)

text \<open>
  C2 as stated fails: the text \<^verbatim>\<open>not-a-number\<close> is not empty, so it passes the guard, and
  the field \<^verbatim>\<open>OverallStatus\<close> of the selected record changes from 4 to \<^verbatim>\<open>NaN\<close>.
\<close>

theorem C2_counterexample:
  "selected_field editing ''OverallStatus'' = Inr (JNum 4) \<and>
   handleSelectChange editing (Some ''not-a-number'') ''OverallStatus'' =
     Inr (editing\<lparr>items :=
       [JObj [(''Name'', JStr ''apple''), (''OverallStatus'', JNaN),
              (''FeaturesNotEmulated'', JArr [JStr ''force feedback'', JStr ''card reader''])],
        JObj [(''Name'', JStr ''Banana'')]]\<rparr>)"
  by (simp add: editing_def apple_record_def selected_field_def handleSelectChange_def
      updateField_def index_def assign_index_def parseInt_not_a_number)

lemma splice1_past_end: "int (length xs) \<le> i \<Longrightarrow> splice1 xs i = xs"
  by (simp add: splice1_def Let_def min_def)

lemma splice1_negative:
  "i < 0 \<Longrightarrow> splice1 xs i =
     take (nat (max (int (length xs) + i) 0)) xs @ drop (Suc (nat (max (int (length xs) + i) 0))) xs"
  by (simp add: splice1_def Let_def)

text \<open>
  C5, as the code has it, for a selected record whose field \<open>field\<close> is a list of \<open>n\<close>
  elements. \<^verbatim>\<open>removeArrayItem\<close> with an index \<open>i \<ge> n\<close> leaves the whole state as it was
  and throws nothing; with \<open>i < 0\<close> it removes the element at position \<open>max (n + i) 0\<close>,
  because \<^verbatim>\<open>splice\<close> counts a negative start from the end. \<^verbatim>\<open>updateArrayItem\<close> with
  \<open>n \<le> i\<close> and \<open>i\<close> an array index (\<open>i < 4294967295\<close>, that is \<^verbatim>\<open>2^32 - 1\<close>) extends the
  list to \<open>i + 1\<close> elements, the new ones before \<open>i\<close> empty, and writes the value at \<open>i\<close>;
  with \<open>i < 0\<close>, or with \<open>i \<ge> n\<close> beyond the array indices, it leaves the state as it was.
\<close>

theorem C5_out_of_bounds:
  assumes sel: "selectedItem s = Some k" "0 \<le> k" "k < int (length (items s))"
    and rec: "items s ! nat k = JObj ps"
    and fld: "map_of ps field = Some (JArr xs)"
  shows "(int (length xs) \<le> i \<longrightarrow> removeArrayItem s field i = Inr s) \<and>
         (i < 0 \<longrightarrow> removeArrayItem s field i =
            Inr (s\<lparr>items := (items s)[nat k := JObj (AList.update field
                   (JArr (take (nat (max (int (length xs) + i) 0)) xs @
                          drop (Suc (nat (max (int (length xs) + i) 0))) xs)) ps)]\<rparr>)) \<and>
         (int (length xs) \<le> i \<and> i < 4294967295 \<longrightarrow> updateArrayItem s field i v =
            Inr (s\<lparr>items := (items s)[nat k := JObj (AList.update field
                   (JArr (xs @ replicate (nat i - length xs) JUndefined @ [v])) ps)]\<rparr>)) \<and>
         (i < 0 \<longrightarrow> updateArrayItem s field i v = Inr s) \<and>
         (int (length xs) \<le> i \<and> 4294967295 \<le> i \<longrightarrow> updateArrayItem s field i v = Inr s)"
proof -
  have sf: "selected_field s field = Inr (JArr xs)"
    using assms by (rule selected_field_object)
  have upd: "updateField s field w =
      Inr (s\<lparr>items := (items s)[nat k := JObj (AList.update field w ps)]\<rparr>)" for w
    using sel rec by (rule updateField_object)
  have same: "updateField s field (JArr xs) = Inr s"
    using rec fld by (simp add: upd update_same flip: rec)
  have r1: "int (length xs) \<le> i \<longrightarrow> removeArrayItem s field i = Inr s"
    using sel by (simp add: removeArrayItem_def sf splice1_past_end same)
  have r2: "i < 0 \<longrightarrow> removeArrayItem s field i =
            Inr (s\<lparr>items := (items s)[nat k := JObj (AList.update field
                   (JArr (take (nat (max (int (length xs) + i) 0)) xs @
                          drop (Suc (nat (max (int (length xs) + i) 0))) xs)) ps)]\<rparr>)"
    using sel by (simp add: removeArrayItem_def sf splice1_negative upd)
  have u1: "int (length xs) \<le> i \<and> i < 4294967295 \<longrightarrow> updateArrayItem s field i v =
            Inr (s\<lparr>items := (items s)[nat k := JObj (AList.update field
                   (JArr (xs @ replicate (nat i - length xs) JUndefined @ [v])) ps)]\<rparr>)"
    using sel by (simp add: updateArrayItem_def sf assign_index_def upd)
  have u2: "i < 0 \<longrightarrow> updateArrayItem s field i v = Inr s"
    using sel by (simp add: updateArrayItem_def sf assign_index_def same)
  have u3: "int (length xs) \<le> i \<and> 4294967295 \<le> i \<longrightarrow> updateArrayItem s field i v = Inr s"
    using sel by (simp add: updateArrayItem_def sf assign_index_def same)
  from r1 r2 u1 u2 u3 show ?thesis by blast
qed

theorem C5_out_of_bounds_witness:
  "removeArrayItem editing ''FeaturesNotEmulated'' 99 = Inr editing"
  using C5_out_of_bounds [of editing 0 apple_record "''FeaturesNotEmulated''"
      "[JStr ''force feedback'', JStr ''card reader'']" 99]
  by (simp add: editing_def apple_record_def)

text \<open>
  C5 as stated fails twice on the two-element list of the example: removing at index
  \<open>-1\<close> deletes the last element, and replacing at index 3 makes the list four elements
  long.
\<close>

theorem C5_counterexample:
  "selected_field editing ''FeaturesNotEmulated'' =
     Inr (JArr [JStr ''force feedback'', JStr ''card reader'']) \<and>
   removeArrayItem editing ''FeaturesNotEmulated'' (- 1) =
     Inr (editing\<lparr>items :=
       [JObj [(''Name'', JStr ''apple''), (''OverallStatus'', JNum 4),
              (''FeaturesNotEmulated'', JArr [JStr ''force feedback''])],
        JObj [(''Name'', JStr ''Banana'')]]\<rparr>) \<and>
   updateArrayItem editing ''FeaturesNotEmulated'' 3 (JStr ''rumble'') =
     Inr (editing\<lparr>items :=
       [JObj [(''Name'', JStr ''apple''), (''OverallStatus'', JNum 4),
              (''FeaturesNotEmulated'',
               JArr [JStr ''force feedback'', JStr ''card reader'', JUndefined, JStr ''rumble''])],
        JObj [(''Name'', JStr ''Banana'')]]\<rparr>)"
  by (simp add: editing_def apple_record_def selected_field_def removeArrayItem_def
      updateArrayItem_def updateField_def index_def assign_index_def splice1_def)

section \<open>Properties of the sort\<close>

subsection \<open>The comparator on named records\<close>

lemma get_prop_error: "get_prop x k = Inl e \<Longrightarrow> e = TypeError"
  by (cases x) auto

lemma nameOf_Some: "nameOf x = Some n \<longleftrightarrow> get_prop x ''Name'' = Inr (JStr n)"
  by (auto simp: nameOf_def split: sum.splits json.splits)

lemma compareNames_named:
  "nameOf a = Some m \<Longrightarrow> nameOf b = Some n \<Longrightarrow> compareNames a b = Inr (localeCompare m n)"
  by (simp add: nameOf_Some compareNames_def)

lemma compareNames_unnamed: "nameOf a = None \<Longrightarrow> compareNames a b = Inl TypeError"
  by (auto simp: nameOf_def compareNames_def dest: get_prop_error split: sum.splits json.splits)

lemma localeCompare_less: "localeCompare m n < 0 \<longleftrightarrow> map fold_case m < map fold_case n"
  by (simp add: localeCompare_def Let_def)

lemma localeCompare_le: "localeCompare m n \<le> 0 \<longleftrightarrow> map fold_case m \<le> map fold_case n"
  by (auto simp: localeCompare_def Let_def)

lemma name_le_key: "has_name a \<Longrightarrow> has_name b \<Longrightarrow> name_le a b \<longleftrightarrow> nameKey a \<le> nameKey b"
  by (auto simp: has_name_def name_le_def nameKey_def localeCompare_le)

lemma compareNames_key:
  "has_name a \<Longrightarrow> has_name b \<Longrightarrow>
     \<exists>c. compareNames a b = Inr c \<and> (c < 0 \<longleftrightarrow> nameKey a < nameKey b)"
  by (auto simp: has_name_def nameKey_def compareNames_named localeCompare_less)

lemma has_name_defined: "has_name x \<Longrightarrow> x \<noteq> JUndefined"
  by (auto simp: has_name_def nameOf_def)

subsection \<open>The sort\<close>

lemma insertSorted_mset: "insertSorted x ys = Inr zs \<Longrightarrow> mset zs = add_mset x (mset ys)"
  by (induction ys arbitrary: zs) (auto split: sum.splits if_splits)

lemma sortLoop_mset: "sortLoop acc xs = Inr zs \<Longrightarrow> mset zs = mset acc + mset xs"
  by (induction xs arbitrary: acc) (auto split: sum.splits dest!: insertSorted_mset)

lemma array_sort_mset: "array_sort xs = Inr zs \<Longrightarrow> mset zs = mset xs"
  by (auto simp: array_sort_def split: sum.splits dest!: sortLoop_mset)

lemma insertSorted_named:
  assumes "has_name x" "list_all has_name ys"
  shows "\<exists>zs. insertSorted x ys = Inr zs \<and> set zs = insert x (set ys) \<and>
              (sorted (map nameKey ys) \<longrightarrow> sorted (map nameKey zs))"
  using assms(2)
proof (induction ys)
  case Nil
  then show ?case by simp
next
  case (Cons y ys)
  then have y: "has_name y" and ys: "list_all has_name ys" by simp_all
  from compareNames_key [OF assms(1) y] obtain c
    where c: "compareNames x y = Inr c" "c < 0 \<longleftrightarrow> nameKey x < nameKey y" by blast
  from Cons.IH [OF ys] obtain zs
    where zs: "insertSorted x ys = Inr zs" "set zs = insert x (set ys)"
      "sorted (map nameKey ys) \<longrightarrow> sorted (map nameKey zs)" by blast
  show ?case
  proof (cases "c < 0")
    case True
    then show ?thesis using c by (auto simp: order.strict_implies_order dest: order_trans less_imp_le)
  next
    case False
    then show ?thesis using c zs by auto
  qed
qed

lemma sortLoop_named:
  assumes "list_all has_name xs" "list_all has_name acc" "sorted (map nameKey acc)"
  shows "\<exists>zs. sortLoop acc xs = Inr zs \<and> sorted (map nameKey zs)"
  using assms
proof (induction xs arbitrary: acc)
  case Nil
  then show ?case by simp
next
  case (Cons x xs)
  then have x: "has_name x" and xs: "list_all has_name xs" by simp_all
  from insertSorted_named [OF x Cons.prems(2)] Cons.prems(3) obtain acc'
    where acc': "insertSorted x acc = Inr acc'" "set acc' = insert x (set acc)"
      "sorted (map nameKey acc')" by blast
  have "list_all has_name acc'"
    using acc'(2) x Cons.prems(2) by (simp add: list_all_iff)
  from Cons.IH [OF xs this acc'(3)] show ?case using acc'(1) by simp
qed

lemma filter_defined: "list_all has_name xs \<Longrightarrow> filter (\<lambda>x. x \<noteq> JUndefined) xs = xs"
  by (induction xs) (auto dest: has_name_defined)

lemma filter_undefined: "list_all has_name xs \<Longrightarrow> filter (\<lambda>x. x = JUndefined) xs = []"
  by (induction xs) (auto dest: has_name_defined)

lemma array_sort_named:
  assumes "list_all has_name xs"
  shows "\<exists>zs. array_sort xs = Inr zs \<and> sorted (map nameKey zs)"
  using sortLoop_named [OF assms, of "[]"] assms
  by (auto simp: array_sort_def filter_defined filter_undefined)

lemma insertSorted_last:
  assumes "has_name x" "list_all has_name ys" "\<forall>y\<in>set ys. nameKey y \<le> nameKey x"
  shows "insertSorted x ys = Inr (ys @ [x])"
  using assms(2,3)
proof (induction ys)
  case Nil
  then show ?case by simp
next
  case (Cons y ys)
  then have y: "has_name y" by simp
  from compareNames_key [OF assms(1) y] obtain c
    where c: "compareNames x y = Inr c" "c < 0 \<longleftrightarrow> nameKey x < nameKey y" by blast
  with Cons show ?case by auto
qed

lemma sortLoop_sorted:
  assumes "list_all has_name xs" "list_all has_name acc" "sorted (map nameKey (acc @ xs))"
  shows "sortLoop acc xs = Inr (acc @ xs)"
  using assms
proof (induction xs arbitrary: acc)
  case Nil
  then show ?case by simp
next
  case (Cons x xs)
  then have x: "has_name x" and xs: "list_all has_name xs" by simp_all
  have "\<forall>y\<in>set acc. nameKey y \<le> nameKey x"
    using Cons.prems(3) by (auto simp: sorted_append)
  from insertSorted_last [OF x Cons.prems(2) this]
  have ins: "insertSorted x acc = Inr (acc @ [x])" .
  have "sortLoop (acc @ [x]) xs = Inr ((acc @ [x]) @ xs)"
    using Cons.prems x xs by (intro Cons.IH) simp_all
  with ins show ?case by simp
qed

lemma array_sort_sorted:
  "list_all has_name xs \<Longrightarrow> sorted (map nameKey xs) \<Longrightarrow> array_sort xs = Inr xs"
  using sortLoop_sorted [of xs "[]"]
  by (simp add: array_sort_def filter_defined filter_undefined)

lemma sorted_name_le:
  "list_all has_name xs \<Longrightarrow> sorted_wrt name_le xs \<longleftrightarrow> sorted (map nameKey xs)"
  by (induction xs) (auto simp: list_all_iff name_le_key)

subsection \<open>The sort is the stable sort by folded name\<close>

lemma insertSorted_stable:
  assumes "has_name x" "list_all has_name ys" "sorted (map nameKey ys)"
    and "insertSorted x ys = Inr zs"
  shows "filter (\<lambda>y. k = nameKey y) zs =
           filter (\<lambda>y. k = nameKey y) ys @ (if k = nameKey x then [x] else [])"
  using assms(2,3,4)
proof (induction ys arbitrary: zs)
  case Nil
  then show ?case by auto
next
  case (Cons y ys)
  then have y: "has_name y" and ys: "list_all has_name ys" "sorted (map nameKey ys)"
    by simp_all
  from compareNames_key [OF assms(1) y] obtain c
    where c: "compareNames x y = Inr c" "c < 0 \<longleftrightarrow> nameKey x < nameKey y" by blast
  show ?case
  proof (cases "c < 0")
    case True
    with c Cons.prems(3) have zs: "zs = x # y # ys" by simp
    from True c have lt: "nameKey x < nameKey y" by simp
    have "\<forall>z\<in>set (y # ys). nameKey x < nameKey z"
      using lt Cons.prems(2) by (auto dest: less_le_trans)
    then have "k = nameKey x \<Longrightarrow> filter (\<lambda>y. k = nameKey y) (y # ys) = []"
      by (auto simp: filter_empty_conv)
    then show ?thesis by (auto simp: zs)
  next
    case False
    with c Cons.prems(3) obtain zs' where zs': "insertSorted x ys = Inr zs'" "zs = y # zs'"
      by (auto split: sum.splits)
    from Cons.IH [OF ys zs'(1)] zs'(2) show ?thesis by (cases "k = nameKey x") auto
  qed
qed

lemma sortLoop_stable:
  assumes "list_all has_name xs" "list_all has_name acc" "sorted (map nameKey acc)"
    and "sortLoop acc xs = Inr zs"
  shows "filter (\<lambda>y. k = nameKey y) zs = filter (\<lambda>y. k = nameKey y) (acc @ xs)"
  using assms
proof (induction xs arbitrary: acc)
  case Nil
  then show ?case by simp
next
  case (Cons x xs)
  then have x: "has_name x" and xs: "list_all has_name xs" by simp_all
  from insertSorted_named [OF x Cons.prems(2)] Cons.prems(3) obtain acc'
    where acc': "insertSorted x acc = Inr acc'" "set acc' = insert x (set acc)"
      "sorted (map nameKey acc')" by blast
  have named: "list_all has_name acc'"
    using acc'(2) x Cons.prems(2) by (simp add: list_all_iff)
  from Cons.prems(4) acc'(1) have "sortLoop acc' xs = Inr zs" by simp
  from Cons.IH [OF xs named acc'(3) this]
    insertSorted_stable [OF x Cons.prems(2,3) acc'(1), of k]
  show ?case by simp
qed

lemma array_sort_stable_sort:
  assumes "list_all has_name xs" "array_sort xs = Inr zs"
  shows "zs = sort_key nameKey xs"
proof -
  from assms have loop: "sortLoop [] xs = Inr zs"
    by (auto simp: array_sort_def filter_defined filter_undefined split: sum.splits)
  from sortLoop_named [OF assms(1), of "[]"] loop have "sorted (map nameKey zs)" by simp
  moreover have "mset zs = mset xs" using assms(2) by (rule array_sort_mset)
  moreover have "filter (\<lambda>y. nameKey k = nameKey y) zs = filter (\<lambda>y. nameKey k = nameKey y) xs"
    for k
    using sortLoop_stable [OF assms(1) _ _ loop, of "nameKey k"] by simp
  ultimately show ?thesis by (intro properties_for_sort_key [symmetric]) simp_all
qed

section \<open>Properties of loading\<close>

lemma saveAppConfig_keeps [simp]:
  "items (saveAppConfig H s c) = items s"
  "toasts (saveAppConfig H s c) = toasts s"
  "selectedItem (saveAppConfig H s c) = selectedItem s"
  "currentFilePath (saveAppConfig H s c) = currentFilePath s"
  "unwritable (saveAppConfig H s c) = unwritable s"
  by (simp_all add: saveAppConfig_def)

lemma loadJsonData_parse_Threw:
  "loadJsonData_parse H s t p = Threw e s' \<Longrightarrow>
     items s' = items s \<and> toasts s' = toasts s \<and> selectedItem s' = selectedItem s"
  by (auto simp: loadJsonData_parse_def Let_def split: option.splits json.splits sum.splits if_splits)

lemma loadJsonData_pick_Threw:
  "loadJsonData_pick H s sel = Threw e s' \<Longrightarrow>
     items s' = items s \<and> toasts s' = toasts s \<and> selectedItem s' = selectedItem s"
  by (auto simp: loadJsonData_pick_def split: option.splits if_splits
      dest: loadJsonData_parse_Threw)

lemma loadJsonData_try_Threw:
  "loadJsonData_try H s sel = Threw e s' \<Longrightarrow>
     items s' = items s \<and> toasts s' = toasts s \<and> selectedItem s' = selectedItem s"
  by (auto simp: loadJsonData_try_def split: sum.splits option.splits json.splits if_splits
      dest: loadJsonData_parse_Threw loadJsonData_pick_Threw)

lemma loadJsonData_parse_Completed:
  assumes "loadJsonData_parse H s t p = Completed s'"
  shows "\<exists>xs ys. JSON_parse H t = Some (JArr xs) \<and> forEach backfillDevOnly xs = Inr ys \<and>
           array_sort ys = Inr (items s') \<and> selectedItem s' = selectedItem s \<and>
           toasts s' = toasts s @
             [\<lparr>message = ''Data loaded successfully'', kind = Success, duration = 6000\<rparr>]"
  using assms
  by (auto simp: loadJsonData_parse_def Let_def showToast_def
      split: option.splits json.splits sum.splits if_splits)

lemma loadJsonData_pick_Completed:
  "loadJsonData_pick H s sel = Completed s' \<Longrightarrow>
     \<exists>t p. p \<noteq> [] \<and> files s p = Some t \<and> loadJsonData_parse H s t p = Completed s'"
  by (auto simp: loadJsonData_pick_def split: option.splits if_splits)

lemma loadJsonData_try_Completed:
  "loadJsonData_try H s sel = Completed s' \<Longrightarrow>
     \<exists>t p. p \<noteq> [] \<and> files s p = Some t \<and> loadJsonData_parse H s t p = Completed s'"
  by (auto simp: loadJsonData_try_def split: sum.splits option.splits json.splits if_splits
      dest: loadJsonData_pick_Completed)


lemma loadJsonData_parse_not_array:
  "JSON_parse H t = Some v \<Longrightarrow> \<forall>xs. v \<noteq> JArr xs \<Longrightarrow>
     \<exists>s1. loadJsonData_parse H s t p = Threw TypeError s1"
  by (cases v) (simp_all add: loadJsonData_parse_def Let_def)

lemma loadJsonData_pick_unreadable:
  "files s p = None \<Longrightarrow> p \<noteq> [] \<Longrightarrow> loadJsonData_pick H s (Some p) = Threw IOError s"
  by (simp add: loadJsonData_pick_def)

lemma loadJsonData_pick_cancelled:
  "loadJsonData_pick H s None = Returned s"
  by (simp add: loadJsonData_pick_def)

lemma loadJsonData_try_remembered:
  "loadAppConfig H s = JObj [(''lastUsedPath'', JStr p)] \<Longrightarrow> p \<noteq> [] \<Longrightarrow>
   files s p = Some t \<Longrightarrow> loadJsonData_try H s sel = loadJsonData_parse H s t p"
  by (simp add: loadJsonData_try_def)

lemma loadJsonData_try_picked:
  "files s (configPath H) = None \<Longrightarrow> p \<noteq> [] \<Longrightarrow> files s p = Some t \<Longrightarrow>
   loadJsonData_try H s (Some p) = loadJsonData_parse H s t p"
  by (simp add: loadJsonData_try_def loadAppConfig_def loadJsonData_pick_def)

subsection \<open>The default for \<^verbatim>\<open>DevOnly\<close>\<close>

lemma update_new_key: "map_of ps k = None \<Longrightarrow> AList.update k v ps = ps @ [(k, v)]"
  by (induction ps) (auto split: if_splits)

lemma backfillDevOnly_result:
  assumes "backfillDevOnly x = Inr y"
  shows "(is_object x \<and> get_prop x ''DevOnly'' = Inr JUndefined \<longrightarrow>
            get_prop y ''DevOnly'' = Inr (JBool False)) \<and>
         (get_prop x ''DevOnly'' \<noteq> Inr JUndefined \<longrightarrow> y = x) \<and>
         (\<forall>k. k \<noteq> ''DevOnly'' \<longrightarrow> get_prop y k = get_prop x k) \<and>
         (\<forall>ps. x = JObj ps \<and> map_of ps ''DevOnly'' = None \<longrightarrow>
            y = JObj (ps @ [(''DevOnly'', JBool False)]))"
  using assms
  by (cases x)
    (auto simp: backfillDevOnly_def is_object_def update_conv' update_new_key
      split: if_splits option.splits)

lemma backfillDevOnly_again: "backfillDevOnly x = Inr y \<Longrightarrow> backfillDevOnly y = Inr y"
  by (cases x) (auto simp: backfillDevOnly_def update_conv' split: if_splits option.splits)

lemma forEach_pointwise:
  "forEach f xs = Inr ys \<Longrightarrow> length ys = length xs \<and> (\<forall>j<length xs. f (xs ! j) = Inr (ys ! j))"
proof (induction xs arbitrary: ys)
  case Nil
  then show ?case by simp
next
  case (Cons x xs)
  then obtain y ys' where y: "f x = Inr y" "forEach f xs = Inr ys'" "ys = y # ys'"
    by (auto split: sum.splits)
  from Cons.IH [OF y(2)] y(1,3) show ?case
    by (auto simp: nth_Cons split: nat.splits)
qed

lemma forEach_fixed: "\<forall>x\<in>set xs. f x = Inr x \<Longrightarrow> forEach f xs = Inr xs"
  by (induction xs) auto

text \<open>
  C8. After a load that completes, the collection is, up to the order the sort gives it,
  the list \<open>ys\<close> obtained record by record from the parsed array \<open>xs\<close>: a record (an
  object) that had no \<^verbatim>\<open>DevOnly\<close> has \<^verbatim>\<open>DevOnly = false\<close>, appended after its other
  fields; a record that specified \<^verbatim>\<open>DevOnly\<close> is unchanged; and every other field of every
  record reads as before.
\<close>

theorem C8_devonly_backfill:
  assumes "loadJsonData_try H s sel = Completed s'"
  shows "\<exists>p t xs ys. files s p = Some t \<and> JSON_parse H t = Some (JArr xs) \<and>
           mset (items s') = mset ys \<and> length ys = length xs \<and>
           (\<forall>j<length xs.
              (is_object (xs ! j) \<and> get_prop (xs ! j) ''DevOnly'' = Inr JUndefined \<longrightarrow>
                 get_prop (ys ! j) ''DevOnly'' = Inr (JBool False)) \<and>
              (get_prop (xs ! j) ''DevOnly'' \<noteq> Inr JUndefined \<longrightarrow> ys ! j = xs ! j) \<and>
              (\<forall>k. k \<noteq> ''DevOnly'' \<longrightarrow> get_prop (ys ! j) k = get_prop (xs ! j) k) \<and>
              (\<forall>ps. xs ! j = JObj ps \<and> map_of ps ''DevOnly'' = None \<longrightarrow>
                 ys ! j = JObj (ps @ [(''DevOnly'', JBool False)])))"
proof -
  from loadJsonData_try_Completed [OF assms] obtain t p
    where tp: "files s p = Some t" "loadJsonData_parse H s t p = Completed s'" by blast
  from loadJsonData_parse_Completed [OF tp(2)] obtain xs ys
    where xs: "JSON_parse H t = Some (JArr xs)" "forEach backfillDevOnly xs = Inr ys"
      "array_sort ys = Inr (items s')" by blast
  from forEach_pointwise [OF xs(2)]
  have len: "length ys = length xs"
    and pw: "\<And>j. j < length xs \<Longrightarrow> backfillDevOnly (xs ! j) = Inr (ys ! j)" by simp_all
  have "mset (items s') = mset ys" using xs(3) by (rule array_sort_mset)
  with tp(1) xs(1) len backfillDevOnly_result [OF pw] show ?thesis by blast
qed

subsection \<open>The example documents, loaded\<close>

lemma example_host_fields:
  "JSON_parse example_host = example_parse"
  "JSON_stringify example_host = example_stringify"
  "appConfigDir example_host = ''/cfg''"
  "configPath example_host = ''/cfg/config.json''"
  by (simp_all add: configPath_def example_host_def)

lemma example_parse_values:
  "example_parse doc_fruit = Some (JArr fruit_parsed)"
  "example_parse doc_fruit_saved = Some (JArr fruit_loaded)"
  "example_parse doc_mixed = Some (JArr mixed_parsed)"
  "example_parse doc_mixed_saved = Some (JArr mixed_loaded)"
  "example_parse doc_single = Some (JArr [JObj [(''Name'', JStr ''apple'')]])"
  "example_parse doc_nameless = Some (JArr [JObj [(''Id'', JStr ''x1'')]])"
  "example_parse doc_two_nameless =
     Some (JArr [JObj [(''Id'', JStr ''x1'')], JObj [(''Id'', JStr ''x2'')]])"
  "example_parse doc_broken = None"
  "example_parse (config_text ''/data/games.json'') = Some (config_for ''/data/games.json'')"
  "example_parse (config_text ''/data/other.json'') = Some (config_for ''/data/other.json'')"
  by (simp_all add: example_parse_def doc_fruit_def doc_fruit_saved_def doc_mixed_def
      doc_mixed_saved_def doc_single_def doc_nameless_def doc_two_nameless_def doc_broken_def
      config_text_def line_def)

lemma example_stringify_values:
  "example_stringify (JArr fruit_loaded) 2 = doc_fruit_saved"
  "example_stringify (JArr mixed_loaded) 2 = doc_mixed_saved"
  "example_stringify (JObj [(''lastUsedPath'', JStr ''/data/games.json'')]) 2 =
     config_text ''/data/games.json''"
  "example_stringify (JObj [(''lastUsedPath'', JStr ''/data/other.json'')]) 2 =
     config_text ''/data/other.json''"
  by (simp_all add: example_stringify_def config_for_def fruit_loaded_def mixed_loaded_def)

lemma backfill_fruit:
  "forEach backfillDevOnly fruit_parsed =
     Inr [JObj [(''Name'', JStr ''Banana''), (''DevOnly'', JBool False)],
          JObj [(''Name'', JStr ''apple''), (''DevOnly'', JBool True)],
          JObj [(''Name'', JStr ''Cherry''), (''Notes'', JStr ''x''), (''DevOnly'', JBool False)]]"
  by (simp add: fruit_parsed_def backfillDevOnly_def)

lemma sort_fruit:
  "array_sort
     [JObj [(''Name'', JStr ''Banana''), (''DevOnly'', JBool False)],
      JObj [(''Name'', JStr ''apple''), (''DevOnly'', JBool True)],
      JObj [(''Name'', JStr ''Cherry''), (''Notes'', JStr ''x''), (''DevOnly'', JBool False)]] =
   Inr fruit_loaded"
  by (simp add: array_sort_def compareNames_def localeCompare_def fold_case_def fruit_loaded_def)

lemma load_fresh:
  "loadJsonData_try example_host fresh (Some ''/data/games.json'') = Completed loaded"
  by (simp add: loadJsonData_try_def loadAppConfig_def loadJsonData_pick_def
      loadJsonData_parse_def saveAppConfig_def showToast_def fresh_def loaded_def
      example_host_fields example_parse_values example_stringify_values
      backfill_fruit sort_fruit Let_def)

lemma names_fruit_loaded:
  "map nameOf fruit_loaded = [Some ''apple'', Some ''Banana'', Some ''Cherry'']"
  by (simp add: fruit_loaded_def nameOf_def)

theorem C8_devonly_backfill_witness:
  "loadJsonData_try example_host fresh (Some ''/data/games.json'') = Completed loaded \<and>
   items loaded = fruit_loaded \<and>
   (\<exists>p t xs ys. files fresh p = Some t \<and> JSON_parse example_host t = Some (JArr xs) \<and>
      mset (items loaded) = mset ys \<and> length ys = length xs \<and>
      (\<forall>j<length xs.
         (is_object (xs ! j) \<and> get_prop (xs ! j) ''DevOnly'' = Inr JUndefined \<longrightarrow>
            get_prop (ys ! j) ''DevOnly'' = Inr (JBool False)) \<and>
         (get_prop (xs ! j) ''DevOnly'' \<noteq> Inr JUndefined \<longrightarrow> ys ! j = xs ! j) \<and>
         (\<forall>k. k \<noteq> ''DevOnly'' \<longrightarrow> get_prop (ys ! j) k = get_prop (xs ! j) k) \<and>
         (\<forall>ps. xs ! j = JObj ps \<and> map_of ps ''DevOnly'' = None \<longrightarrow>
            ys ! j = JObj (ps @ [(''DevOnly'', JBool False)]))))"
  using C8_devonly_backfill [OF load_fresh] load_fresh by (simp add: loaded_def)

text \<open>
  C7. When the \<^verbatim>\<open>try\<close> block of \<^verbatim>\<open>loadJsonData\<close> throws, for whatever reason (the file
  cannot be read, the text is not JSON, the value is not an array, a record cannot be
  defaulted or compared), the collection and the selection are those from before the
  load, and the only toast added is the failure message.
\<close>

theorem C7_failed_load:
  assumes "loadJsonData_try H s sel = Threw e s'"
  shows "items (loadJsonData H s sel) = items s \<and>
         selectedItem (loadJsonData H s sel) = selectedItem s \<and>
         toasts (loadJsonData H s sel) =
           toasts s @ [\<lparr>message = ''Failed to load data'', kind = Error, duration = 6000\<rparr>]"
  using loadJsonData_try_Threw [OF assms] assms
  by (simp add: loadJsonData_def showToast_def)

lemma load_broken:
  "loadJsonData_try example_host (session_with doc_broken) None =
     Threw SyntaxError (session_with doc_broken)"
  by (simp add: loadJsonData_try_def loadAppConfig_def loadJsonData_parse_def
      saveAppConfig_def session_with_def example_host_fields example_parse_values
      example_stringify_values config_for_def Let_def fun_upd_twist)

theorem C7_failed_load_witness:
  "loadJsonData_try example_host (session_with doc_broken) None =
     Threw SyntaxError (session_with doc_broken) \<and>
   items (loadJsonData example_host (session_with doc_broken) None) = fruit_loaded \<and>
   selectedItem (loadJsonData example_host (session_with doc_broken) None) = Some 2 \<and>
   toasts (loadJsonData example_host (session_with doc_broken) None) =
     [\<lparr>message = ''Failed to load data'', kind = Error, duration = 6000\<rparr>]"
  using C7_failed_load [OF load_broken] load_broken by (simp add: session_with_def)

section \<open>Properties of the order after a load\<close>

lemma has_name_mset: "mset xs = mset ys \<Longrightarrow> list_all has_name xs \<Longrightarrow> list_all has_name ys"
  by (simp add: list_all_iff flip: set_mset_mset)

text \<open>
  C6. After a load that completes, a collection whose records all have a string \<^verbatim>\<open>Name\<close>
  is sorted by name under \<open>localeCompare\<close>, the case-insensitive lexicographic comparison:
  every record compares less than or equal to every record after it. The order is
  determined by the document: the collection is the stable sort, by case-folded name, of
  the parsed records with their \<^verbatim>\<open>DevOnly\<close> default. The document of the records Banana,
  apple, Cherry is loaded in the order apple, Banana, Cherry.
\<close>

theorem C6_sorted_by_name:
  assumes "loadJsonData_try H s sel = Completed s'" and "list_all has_name (items s')"
  shows "sorted_wrt name_le (items s') \<and>
         (\<exists>p t xs ys. files s p = Some t \<and> JSON_parse H t = Some (JArr xs) \<and>
            forEach backfillDevOnly xs = Inr ys \<and> items s' = sort_key nameKey ys)"
proof -
  from loadJsonData_try_Completed [OF assms(1)] obtain t p
    where tp: "files s p = Some t" "loadJsonData_parse H s t p = Completed s'" by blast
  from loadJsonData_parse_Completed [OF tp(2)] obtain xs ys
    where ys: "JSON_parse H t = Some (JArr xs)" "forEach backfillDevOnly xs = Inr ys"
      "array_sort ys = Inr (items s')" by blast
  have "mset (items s') = mset ys" using ys(3) by (rule array_sort_mset)
  then have named: "list_all has_name ys" using assms(2) by (rule has_name_mset)
  from array_sort_named [OF this] ys(3) have "sorted (map nameKey (items s'))" by auto
  then have "sorted_wrt name_le (items s')" using assms(2) by (simp add: sorted_name_le)
  moreover have "items s' = sort_key nameKey ys"
    using named ys(3) by (rule array_sort_stable_sort)
  ultimately show ?thesis using tp(1) ys(1,2) by blast
qed

theorem C6_sorted_by_name_witness:
  "loadJsonData_try example_host fresh (Some ''/data/games.json'') = Completed loaded \<and>
   map nameOf fruit_parsed = [Some ''Banana'', Some ''apple'', Some ''Cherry''] \<and>
   map nameOf (items loaded) = [Some ''apple'', Some ''Banana'', Some ''Cherry''] \<and>
   sorted_wrt name_le (items loaded)"
proof -
  have names: "list_all has_name (items loaded)"
    by (simp add: loaded_def fruit_loaded_def has_name_def nameOf_def)
  from C6_sorted_by_name [OF load_fresh names] load_fresh show ?thesis
    by (simp add: loaded_def names_fruit_loaded fruit_parsed_def nameOf_def)
qed

section \<open>Records without a name\<close>




lemma list_all_of_map:
  assumes "map f ys = map f xs"
  shows "list_all (\<lambda>x. P (f x)) ys = list_all (\<lambda>x. P (f x)) xs"
proof -
  have "list_all (\<lambda>x. P (f x)) zs = list_all P (map f zs)" for zs
    by (simp add: list.pred_map o_def)
  with assms show ?thesis by simp
qed


lemma unnamed_map:
  assumes "map nameOf ys = map nameOf xs"
  shows "list_all (\<lambda>x. \<not> has_name x) ys = list_all (\<lambda>x. \<not> has_name x) xs"
proof -
  have "(\<lambda>x. \<not> has_name x) = (\<lambda>x. nameOf x = None)" by (simp add: fun_eq_iff has_name_def)
  with list_all_of_map [OF assms, of "\<lambda>n. n = None"] show ?thesis by simp
qed

lemma object_defined: "is_object x \<Longrightarrow> x \<noteq> JUndefined"
  by (auto simp: is_object_def)

lemma filter_objects:
  "list_all is_object xs \<Longrightarrow> filter (\<lambda>x. x \<noteq> JUndefined) xs = xs"
  "list_all is_object xs \<Longrightarrow> filter (\<lambda>x. x = JUndefined) xs = []"
  by (induction xs) (auto dest: object_defined)

lemma array_sort_short:
  "list_all is_object ys \<Longrightarrow> length ys < 2 \<Longrightarrow> array_sort ys = Inr ys"
  by (cases ys; cases "tl ys") (auto simp: array_sort_def dest: object_defined)

lemma array_sort_unnamed:
  assumes "list_all is_object ys" "2 \<le> length ys" "list_all (\<lambda>x. \<not> has_name x) ys"
  shows "array_sort ys = Inl TypeError"
proof -
  from assms(2) obtain a b rest where ys: "ys = a # b # rest"
    by (cases ys; cases "tl ys") auto
  with assms(3) have "nameOf b = None" by (simp add: has_name_def)
  then have cmp: "compareNames b a = Inl TypeError" by (rule compareNames_unnamed)
  have "filter (\<lambda>x. x \<noteq> JUndefined) ys = ys" using assms(1) by (rule filter_objects)
  then have "array_sort ys = (case sortLoop [] ys of Inl e \<Rightarrow> Inl e
      | Inr zs \<Rightarrow> Inr (zs @ filter (\<lambda>x. x = JUndefined) ys))"
    by (simp add: array_sort_def)
  also have "sortLoop [] ys = Inl TypeError" by (simp add: ys cmp)
  finally show ?thesis by simp
qed










lemma load_session:
  "loadJsonData_try example_host (session_with c) None =
     loadJsonData_parse example_host (session_with c) c ''/data/games.json''"
  by (simp add: loadJsonData_try_def loadAppConfig_def session_with_def example_host_fields
      example_parse_values config_for_def)

lemma session_remembers:
  "saveAppConfig example_host ((session_with c)\<lparr>currentFilePath := Some ''/data/games.json''\<rparr>)
     (JObj [(''lastUsedPath'', JStr ''/data/games.json'')]) = session_with c"
  by (simp add: saveAppConfig_def session_with_def example_host_fields example_stringify_values)

lemma backfill_mixed:
  "forEach backfillDevOnly mixed_parsed =
     Inr [JObj [(''Id'', JStr ''u''), (''DevOnly'', JBool False)],
          JObj [(''Name'', JStr ''a''), (''DevOnly'', JBool False)]]"
  "forEach backfillDevOnly mixed_loaded = Inr mixed_loaded"
  by (simp_all add: mixed_parsed_def mixed_loaded_def backfillDevOnly_def)

lemma sort_mixed:
  "array_sort
     [JObj [(''Id'', JStr ''u''), (''DevOnly'', JBool False)],
      JObj [(''Name'', JStr ''a''), (''DevOnly'', JBool False)]] = Inr mixed_loaded"
  "array_sort mixed_loaded = Inl TypeError"
  by (simp_all add: array_sort_def compareNames_def localeCompare_def fold_case_def
      mixed_loaded_def)



section \<open>The remembered path and the round trip\<close>

lemma showToast_keeps [simp]:
  "items (showToast s m k) = items s"
  "selectedItem (showToast s m k) = selectedItem s"
  "currentFilePath (showToast s m k) = currentFilePath s"
  "files (showToast s m k) = files s"
  "unwritable (showToast s m k) = unwritable s"
  by (simp_all add: showToast_def)

lemma saveAppConfig_files:
  "\<not> unwritable s (appConfigDir H) \<Longrightarrow> \<not> unwritable s (configPath H) \<Longrightarrow>
     files (saveAppConfig H s c) (configPath H) = Some (JSON_stringify H c 2)"
  by (simp add: saveAppConfig_def)


lemma loadJsonData_parse_remembers:
  assumes "p \<noteq> []"
  shows "currentFilePath (final_state (loadJsonData_parse H s t p)) = Some p"
    and "unwritable (final_state (loadJsonData_parse H s t p)) = unwritable s"
    and "\<not> unwritable s (appConfigDir H) \<Longrightarrow> \<not> unwritable s (configPath H) \<Longrightarrow>
           files (final_state (loadJsonData_parse H s t p)) (configPath H) =
             Some (JSON_stringify H (JObj [(''lastUsedPath'', JStr p)]) 2)"
  using assms
  by (auto simp: loadJsonData_parse_def final_state_def Let_def saveAppConfig_files
      split: option.splits json.splits sum.splits)

lemma saveToCurrentPath_writes:
  assumes "currentFilePath s = Some p" "p \<noteq> []" "\<not> unwritable s p"
  shows "saveToCurrentPath H s sp =
     showToast (s\<lparr>files := (files s)(p \<mapsto> JSON_stringify H (JArr (items s)) 2)\<rparr>)
       ''Data saved successfully'' Success"
  using assms by (simp add: saveToCurrentPath_def)




lemma loadJsonData_parse_path:
  "loadJsonData_parse H s t p = Completed s' \<Longrightarrow> p \<noteq> [] \<Longrightarrow> currentFilePath s' = Some p"
  using loadJsonData_parse_remembers(1) [of p H s t] by (simp add: final_state_def)

lemma loaded_items_settled:
  assumes "loadJsonData_try H s sel = Completed s'" and "list_all has_name (items s')"
  shows "forEach backfillDevOnly (items s') = Inr (items s')"
    and "array_sort (items s') = Inr (items s')"
proof -
  from loadJsonData_try_Completed [OF assms(1)] obtain t p
    where "loadJsonData_parse H s t p = Completed s'" by blast
  from loadJsonData_parse_Completed [OF this] obtain xs ys
    where ys: "forEach backfillDevOnly xs = Inr ys" "array_sort ys = Inr (items s')" by blast
  have ms: "mset (items s') = mset ys" using ys(2) by (rule array_sort_mset)
  have "backfillDevOnly y = Inr y" if "y \<in> set ys" for y
  proof -
    from that obtain j where j: "j < length ys" "y = ys ! j" by (auto simp: in_set_conv_nth)
    with forEach_pointwise [OF ys(1)] have "backfillDevOnly (xs ! j) = Inr y" by simp
    then show ?thesis by (rule backfillDevOnly_again)
  qed
  moreover have "set (items s') = set ys" using ms by (rule mset_eq_setD)
  ultimately show "forEach backfillDevOnly (items s') = Inr (items s')"
    by (intro forEach_fixed) simp
  have "list_all has_name ys" using ms assms(2) by (rule has_name_mset)
  from array_sort_named [OF this] ys(2) have "sorted (map nameKey (items s'))" by auto
  with assms(2) show "array_sort (items s') = Inr (items s')" by (rule array_sort_sorted)
qed

text \<open>
  C1, as the code has it. Take a collection obtained from a load that completed, and
  let every record of it have a string \<^verbatim>\<open>Name\<close>. Saved to the current path \<open>p\<close>, the file
  holds \<^verbatim>\<open>JSON.stringify(items, null, 2)\<close> of the collection as it is, in its current
  order, and the collection itself is not changed. Let \<^verbatim>\<open>JSON.parse\<close> read that text back
  as the value written. Then in every state \<open>r\<close> that has the saved file at \<open>p\<close> (the
  state right after the save, or the editor started again), a load that resolves \<open>p\<close>
  completes, with the success toast, and its collection is exactly the saved one: the
  same records with all their fields in the same order, and no record moved by the sort.
  The last part holds for any state: a save to the current path writes the collection in
  its current order.
\<close>

theorem C1_round_trip:
  assumes load1: "loadJsonData_try H s0 sel = Completed s1"
    and names: "list_all has_name (items s1)"
    and path: "currentFilePath s1 = Some p"
    and writable: "\<not> unwritable s1 p"
    and json: "JSON_parse H (JSON_stringify H (JArr (items s1)) 2) = Some (JArr (items s1))"
    and file2: "files r p = files (saveToCurrentPath H s1 sp) p"
    and load2: "loadJsonData_try H r sel2 =
                  loadJsonData_parse H r (JSON_stringify H (JArr (items s1)) 2) p"
  shows "files (saveToCurrentPath H s1 sp) p = Some (JSON_stringify H (JArr (items s1)) 2) \<and>
         items (saveToCurrentPath H s1 sp) = items s1 \<and>
         files r p = Some (JSON_stringify H (JArr (items s1)) 2) \<and>
         (\<exists>s3. loadJsonData_try H r sel2 = Completed s3 \<and> items s3 = items s1) \<and>
         items (loadJsonData H r sel2) = items s1 \<and>
         toasts (loadJsonData H r sel2) =
           toasts r @ [\<lparr>message = ''Data loaded successfully'', kind = Success, duration = 6000\<rparr>] \<and>
         (currentFilePath s = Some q \<and> q \<noteq> [] \<and> \<not> unwritable s q \<longrightarrow>
            files (saveToCurrentPath H s sp) q = Some (JSON_stringify H (JArr (items s)) 2) \<and>
            items (saveToCurrentPath H s sp) = items s)"
proof -
  from loadJsonData_try_Completed [OF load1] obtain t p'
    where p': "p' \<noteq> []" "loadJsonData_parse H s0 t p' = Completed s1" by blast
  from loadJsonData_parse_path [OF p'(2,1)] path have p: "p \<noteq> []" using p'(1) by simp
  note saved = saveToCurrentPath_writes [OF path p writable, of H sp]
  have written: "files (saveToCurrentPath H s1 sp) p = Some (JSON_stringify H (JArr (items s1)) 2)"
    and same: "items (saveToCurrentPath H s1 sp) = items s1"
    by (simp_all add: saved)
  from written file2
  have there: "files r p = Some (JSON_stringify H (JArr (items s1)) 2)" by simp
  note settled = loaded_items_settled [OF load1 names]
  have "\<exists>s3. loadJsonData_parse H r (JSON_stringify H (JArr (items s1)) 2) p = Completed s3 \<and>
      items s3 = items s1 \<and>
      toasts s3 =
        toasts r @ [\<lparr>message = ''Data loaded successfully'', kind = Success, duration = 6000\<rparr>]"
    by (simp add: loadJsonData_parse_def json settled Let_def showToast_def)
  then obtain s3 where s3: "loadJsonData_try H r sel2 = Completed s3" "items s3 = items s1"
    "toasts s3 =
       toasts r @ [\<lparr>message = ''Data loaded successfully'', kind = Success, duration = 6000\<rparr>]"
    by (auto simp: load2)
  then have again: "\<exists>s3. loadJsonData_try H r sel2 = Completed s3 \<and> items s3 = items s1"
    and reloaded: "items (loadJsonData H r sel2) = items s1"
      "toasts (loadJsonData H r sel2) =
         toasts r @ [\<lparr>message = ''Data loaded successfully'', kind = Success, duration = 6000\<rparr>]"
    by (auto simp: loadJsonData_def)
  have any: "currentFilePath s = Some q \<and> q \<noteq> [] \<and> \<not> unwritable s q \<longrightarrow>
      files (saveToCurrentPath H s sp) q = Some (JSON_stringify H (JArr (items s)) 2) \<and>
      items (saveToCurrentPath H s sp) = items s"
    by (simp add: saveToCurrentPath_def)
  from written same there again reloaded any show ?thesis by blast
qed

lemma save_loaded:
  "saveToCurrentPath example_host loaded None =
     showToast (loaded\<lparr>files := (files loaded)(''/data/games.json'' \<mapsto> doc_fruit_saved)\<rparr>)
       ''Data saved successfully'' Success"
  by (simp add: saveToCurrentPath_def loaded_def example_host_fields example_stringify_values)

lemma load_saved:
  "loadJsonData_try example_host (saveToCurrentPath example_host loaded None) None =
     loadJsonData_parse example_host (saveToCurrentPath example_host loaded None)
       doc_fruit_saved ''/data/games.json''"
  unfolding save_loaded
  by (simp add: loadJsonData_try_def loadAppConfig_def loaded_def example_host_fields
      example_parse_values config_for_def)

lemma load_restarted:
  "loadJsonData_try example_host (restarted c) None =
     loadJsonData_parse example_host (restarted c) c ''/data/games.json''"
  by (simp add: loadJsonData_try_def loadAppConfig_def restarted_def example_host_fields
      example_parse_values config_for_def)

theorem C1_round_trip_witness:
  "loadJsonData_try example_host fresh (Some ''/data/games.json'') = Completed loaded \<and>
   items loaded = fruit_loaded \<and>
   files (saveToCurrentPath example_host loaded None) ''/data/games.json'' = Some doc_fruit_saved \<and>
   items (loadJsonData example_host (saveToCurrentPath example_host loaded None) None) =
     fruit_loaded \<and>
   toasts (loadJsonData example_host (saveToCurrentPath example_host loaded None) None) =
     [\<lparr>message = ''Data loaded successfully'', kind = Success, duration = 6000\<rparr>,
      \<lparr>message = ''Data saved successfully'', kind = Success, duration = 6000\<rparr>,
      \<lparr>message = ''Data loaded successfully'', kind = Success, duration = 6000\<rparr>] \<and>
   items (restarted doc_fruit_saved) = [] \<and>
   items (loadJsonData example_host (restarted doc_fruit_saved) None) = fruit_loaded \<and>
   toasts (loadJsonData example_host (restarted doc_fruit_saved) None) =
     [\<lparr>message = ''Data loaded successfully'', kind = Success, duration = 6000\<rparr>]"
proof -
  have env: "list_all has_name (items loaded)"
    "currentFilePath loaded = Some ''/data/games.json''"
    "\<not> unwritable loaded ''/data/games.json''"
    "JSON_parse example_host (JSON_stringify example_host (JArr (items loaded)) 2) =
       Some (JArr (items loaded))"
    "JSON_stringify example_host (JArr (items loaded)) 2 = doc_fruit_saved"
    "items loaded = fruit_loaded"
    by (simp_all add: loaded_def example_host_fields example_stringify_values
        example_parse_values)
      (simp add: fruit_loaded_def has_name_def nameOf_def)
  have saved: "files (saveToCurrentPath example_host loaded None) ''/data/games.json'' =
      Some doc_fruit_saved"
    "toasts (saveToCurrentPath example_host loaded None) =
      [\<lparr>message = ''Data loaded successfully'', kind = Success, duration = 6000\<rparr>,
       \<lparr>message = ''Data saved successfully'', kind = Success, duration = 6000\<rparr>]"
    unfolding save_loaded by (simp_all add: showToast_def loaded_def)
  have load2: "loadJsonData_try example_host (saveToCurrentPath example_host loaded None) None =
      loadJsonData_parse example_host (saveToCurrentPath example_host loaded None)
        (JSON_stringify example_host (JArr (items loaded)) 2) ''/data/games.json''"
    by (simp add: env(5) load_saved)
  have file3: "files (restarted doc_fruit_saved) ''/data/games.json'' =
      files (saveToCurrentPath example_host loaded None) ''/data/games.json''"
    by (simp add: saved restarted_def)
  have load3: "loadJsonData_try example_host (restarted doc_fruit_saved) None =
      loadJsonData_parse example_host (restarted doc_fruit_saved)
        (JSON_stringify example_host (JArr (items loaded)) 2) ''/data/games.json''"
    by (simp add: env(5) load_restarted)
  have start: "items (restarted doc_fruit_saved) = []" "toasts (restarted doc_fruit_saved) = []"
    by (simp_all add: restarted_def)
  from C1_round_trip [OF load_fresh env(1,2,3,4) refl load2]
  have immediate:
    "items (loadJsonData example_host (saveToCurrentPath example_host loaded None) None) =
       items loaded"
    "toasts (loadJsonData example_host (saveToCurrentPath example_host loaded None) None) =
       toasts (saveToCurrentPath example_host loaded None) @
         [\<lparr>message = ''Data loaded successfully'', kind = Success, duration = 6000\<rparr>]"
    by blast+
  from C1_round_trip [OF load_fresh env(1,2,3,4) file3 load3]
  have later: "items (loadJsonData example_host (restarted doc_fruit_saved) None) = items loaded"
    "toasts (loadJsonData example_host (restarted doc_fruit_saved) None) =
       toasts (restarted doc_fruit_saved) @
         [\<lparr>message = ''Data loaded successfully'', kind = Success, duration = 6000\<rparr>]"
    by blast+
  from load_fresh immediate later saved start env(6) show ?thesis by simp
qed

lemma load_fresh_mixed:
  "loadJsonData_try example_host fresh_mixed (Some ''/data/games.json'') = Completed loaded_mixed"
  by (simp add: loadJsonData_try_def loadAppConfig_def loadJsonData_pick_def
      loadJsonData_parse_def saveAppConfig_def showToast_def fresh_mixed_def loaded_mixed_def
      example_host_fields example_parse_values example_stringify_values
      backfill_mixed sort_mixed Let_def)

lemma save_loaded_mixed:
  "saveToCurrentPath example_host loaded_mixed None =
     showToast (loaded_mixed\<lparr>files := (files loaded_mixed)(''/data/games.json'' \<mapsto> doc_mixed_saved)\<rparr>)
       ''Data saved successfully'' Success"
  by (simp add: saveToCurrentPath_def loaded_mixed_def example_host_fields
      example_stringify_values)

lemma load_saved_mixed:
  "loadJsonData_try example_host (saveToCurrentPath example_host loaded_mixed None) None =
     loadJsonData_parse example_host (saveToCurrentPath example_host loaded_mixed None)
       doc_mixed_saved ''/data/games.json''"
  unfolding save_loaded_mixed
  by (simp add: loadJsonData_try_def loadAppConfig_def loaded_mixed_def example_host_fields
      example_parse_values config_for_def)

lemma reload_mixed_throws:
  "\<exists>s1. loadJsonData_parse example_host s doc_mixed_saved ''/data/games.json'' =
     Threw TypeError s1"
  by (simp add: loadJsonData_parse_def example_host_fields example_parse_values
      backfill_mixed sort_mixed Let_def)

text \<open>
  C1 as stated fails on a collection obtained from load in which a record has no
  \<^verbatim>\<open>Name\<close>. The document \<^verbatim>\<open>[{"Id":"u"},{"Name":"a"}]\<close> loads: the nameless record comes
  first and is only the argument of the one comparison, which puts the record named
  \<^verbatim>\<open>a\<close> before it. The save writes the two records in that order. On the load of the
  saved file the nameless record is second and is the receiver of the comparison, which
  throws: the load fails, right after the save as well as when the editor is started
  again, where the collection stays empty.
\<close>

theorem C1_counterexample:
  "loadJsonData_try example_host fresh_mixed (Some ''/data/games.json'') = Completed loaded_mixed \<and>
   items loaded_mixed = mixed_loaded \<and>
   files (saveToCurrentPath example_host loaded_mixed None) ''/data/games.json'' =
     Some doc_mixed_saved \<and>
   JSON_parse example_host doc_mixed_saved = Some (JArr mixed_loaded) \<and>
   toasts (loadJsonData example_host (saveToCurrentPath example_host loaded_mixed None) None) =
     [\<lparr>message = ''Data loaded successfully'', kind = Success, duration = 6000\<rparr>,
      \<lparr>message = ''Data saved successfully'', kind = Success, duration = 6000\<rparr>,
      \<lparr>message = ''Failed to load data'', kind = Error, duration = 6000\<rparr>] \<and>
   items (loadJsonData example_host (restarted doc_mixed_saved) None) = [] \<and>
   toasts (loadJsonData example_host (restarted doc_mixed_saved) None) =
     [\<lparr>message = ''Failed to load data'', kind = Error, duration = 6000\<rparr>]"
proof -
  from reload_mixed_throws obtain s1 where
    "loadJsonData_try example_host (saveToCurrentPath example_host loaded_mixed None) None =
       Threw TypeError s1"
    unfolding load_saved_mixed by blast
  from loadJsonData_try_Threw [OF this] this
  have immediate:
    "toasts (loadJsonData example_host (saveToCurrentPath example_host loaded_mixed None) None) =
       toasts (saveToCurrentPath example_host loaded_mixed None) @
         [\<lparr>message = ''Failed to load data'', kind = Error, duration = 6000\<rparr>]"
    by (simp add: loadJsonData_def showToast_def)
  from reload_mixed_throws obtain s2 where
    "loadJsonData_try example_host (restarted doc_mixed_saved) None = Threw TypeError s2"
    unfolding load_restarted by blast
  from loadJsonData_try_Threw [OF this] this
  have later: "items (loadJsonData example_host (restarted doc_mixed_saved) None) =
      items (restarted doc_mixed_saved)"
    "toasts (loadJsonData example_host (restarted doc_mixed_saved) None) =
      toasts (restarted doc_mixed_saved) @
        [\<lparr>message = ''Failed to load data'', kind = Error, duration = 6000\<rparr>]"
    by (simp_all add: loadJsonData_def showToast_def)
  have saved: "files (saveToCurrentPath example_host loaded_mixed None) ''/data/games.json'' =
      Some doc_mixed_saved"
    "toasts (saveToCurrentPath example_host loaded_mixed None) =
      [\<lparr>message = ''Data loaded successfully'', kind = Success, duration = 6000\<rparr>,
       \<lparr>message = ''Data saved successfully'', kind = Success, duration = 6000\<rparr>]"
    unfolding save_loaded_mixed by (simp_all add: showToast_def loaded_mixed_def)
  show ?thesis
    using load_fresh_mixed immediate later saved
    by (simp add: example_host_fields example_parse_values)
      (simp add: loaded_mixed_def restarted_def)
qed

section \<open>The selection after a load\<close>

text \<open>
  C4 fails in the code. In the running session the third record is selected; the
  document on disk meanwhile holds a single record. The load replaces the collection by
  that one record and leaves \<^verbatim>\<open>selectedItem\<close> at 2, which is no index of the new
  collection. (\<^verbatim>\<open>loadJsonData\<close> never assigns \<^verbatim>\<open>selectedItem\<close>.)
\<close>

theorem C4_selection_dangles_after_load:
  "selectedItem (session_with doc_single) = Some 2 \<and>
   length (items (session_with doc_single)) = 3 \<and>
   selectedItem (loadJsonData example_host (session_with doc_single) None) = Some 2 \<and>
   items (loadJsonData example_host (session_with doc_single) None) =
     [JObj [(''Name'', JStr ''apple''), (''DevOnly'', JBool False)]]"
proof -
  have "loadJsonData_try example_host (session_with doc_single) None =
      Completed (showToast
        ((session_with doc_single)
           \<lparr>items := [JObj [(''Name'', JStr ''apple''), (''DevOnly'', JBool False)]]\<rparr>)
        ''Data loaded successfully'' Success)"
    unfolding load_session
    by (simp add: loadJsonData_parse_def session_remembers example_host_fields
        example_parse_values backfillDevOnly_def array_sort_def)
  then show ?thesis
    by (simp add: loadJsonData_def session_with_def fruit_loaded_def)
qed

section \<open>Properties of the bullet-point edits\<close>

lemma cell_at_Some: "cell_at st a = Some c \<longleftrightarrow> a < length st \<and> st ! a = c"
  by (auto simp: cell_at_def)

lemma cell_at_alloc: "cell_at st a = Some c \<Longrightarrow> cell_at (st @ cs) a = Some c"
  by (auto simp: cell_at_def nth_append split: if_splits)

lemma cell_at_update:
  "cell_at st a = Some c \<Longrightarrow> cell_at (st[b := d]) a = Some (if a = b then d else c)"
  by (auto simp: cell_at_def split: if_splits)

lemma copySetupDetails_path:
  assumes "cell_at (store S) (items_ref S) = Some (ArrCell rs)" "vindex rs i = VRef ra"
    and "cell_at (store S) ra = Some (ObjCell ps)" "map_of ps ''SetupDetails'' = Some (VRef sa)"
    and "cell_at (store S) sa = Some (ArrCell xs)"
  shows "copySetupDetails S i = Inr (xs, store S @ [ArrCell xs], length (store S))"
  using assms
  by (simp add: copySetupDetails_def selected_record_def load_prop_def elems_def alloc_def)

lemma updateField_store_path:
  assumes "selection S = Some i"
    and "cell_at (store S) (items_ref S) = Some (ArrCell rs)" "vindex rs i = VRef ra"
    and "cell_at (store S) ra = Some (ObjCell ps)"
  shows "updateField_store S field v =
           Inr (S\<lparr>store := (store S)[ra := ObjCell (AList.update field v ps)]\<rparr>)"
  using assms by (simp add: updateField_store_def selected_record_def store_prop_def)

text \<open>
  C3, as the code has it. Let the selected record (cell \<open>ra\<close>) have the setup-details
  list \<open>xs\<close>, whose entry \<open>j\<close> is the object in cell \<open>da\<close> with the bullet-point list
  \<open>ys\<close> in cell \<open>ba\<close>. Each of the three edits succeeds, allocates one copy of the
  setup-details list, holding the same references to the same setup-detail objects, and
  writes the copy into the record's \<^verbatim>\<open>SetupDetails\<close> field. \<^verbatim>\<open>updateBulletPoint\<close> also
  allocates a changed copy of the bullet-point list and stores it in the setup-detail
  object that is already there; \<^verbatim>\<open>addBulletPoint\<close> and \<^verbatim>\<open>removeBulletPoint\<close> leave entry
  \<open>j\<close> with the old elements and the appended, respectively without the removed, one.
  After \<^verbatim>\<open>addBulletPoint\<close> every cell other than \<open>ra\<close> and \<open>ba\<close> is as before: the other
  setup details, their bullet-point lists and the other records are not altered.
\<close>

theorem C3_bullet_edits:
  assumes sel: "selection S = Some i"
    and itm: "cell_at (store S) (items_ref S) = Some (ArrCell rs)" "vindex rs i = VRef ra"
    and rcd: "cell_at (store S) ra = Some (ObjCell ps)"
             "map_of ps ''SetupDetails'' = Some (VRef sa)"
    and lst: "cell_at (store S) sa = Some (ArrCell xs)" "vindex xs j = VRef da"
    and dtl: "cell_at (store S) da = Some (ObjCell qs)"
             "map_of qs ''BulletPoints'' = Some (VRef ba)"
    and bul: "cell_at (store S) ba = Some (ArrCell ys)"
    and sep: "ba \<noteq> items_ref S" "da \<noteq> ra"
  shows "addBulletPoint S j =
           Inr (S\<lparr>store := (store S @ [ArrCell xs])
                    [ba := ArrCell (ys @ [VStr []]),
                     ra := ObjCell (AList.update ''SetupDetails'' (VRef (length (store S))) ps)]\<rparr>) \<and>
         removeBulletPoint S j b =
           Inr (S\<lparr>store := (store S @ [ArrCell xs])
                    [ba := ArrCell (vsplice1 ys b),
                     ra := ObjCell (AList.update ''SetupDetails'' (VRef (length (store S))) ps)]\<rparr>) \<and>
         updateBulletPoint S j b v =
           Inr (S\<lparr>store := (store S @ [ArrCell xs, ArrCell (vassign_index ys b (VStr v))])
                    [da := ObjCell (AList.update ''BulletPoints'' (VRef (Suc (length (store S)))) qs),
                     ra := ObjCell (AList.update ''SetupDetails'' (VRef (length (store S))) ps)]\<rparr>) \<and>
         (\<forall>a<length (store S). a \<noteq> ra \<and> a \<noteq> ba \<longrightarrow>
            ((store S @ [ArrCell xs])
               [ba := ArrCell (ys @ [VStr []]),
                ra := ObjCell (AList.update ''SetupDetails'' (VRef (length (store S))) ps)]) ! a =
            store S ! a)"
proof -
  let ?n = "length (store S)"
  let ?st1 = "store S @ [ArrCell xs]"
  note copy = copySetupDetails_path [OF itm rcd lst(1)]
  have d1: "load_prop ?st1 (VRef da) ''BulletPoints'' = Inr (VRef ba)"
    using cell_at_alloc [OF dtl(1), of "[ArrCell xs]"] dtl(2)
    by (simp add: load_prop_def)
  have b1: "cell_at ?st1 ba = Some (ArrCell ys)"
    using bul by (rule cell_at_alloc)
  have i1: "cell_at (?st1[ba := c]) (items_ref S) = Some (ArrCell rs)" for c
    using cell_at_update [OF cell_at_alloc [OF itm(1), of "[ArrCell xs]"], of ba c] sep(1)
    by simp
  have r1: "cell_at (?st1[ba := c]) ra = Some (ObjCell ps)" for c
    using cell_at_update [OF cell_at_alloc [OF rcd(1), of "[ArrCell xs]"], of ba c] bul rcd(1)
    by (auto simp: cell_at_Some)
  have add: "addBulletPoint S j =
      Inr (S\<lparr>store := ?st1[ba := ArrCell (ys @ [VStr []]),
                 ra := ObjCell (AList.update ''SetupDetails'' (VRef ?n) ps)]\<rparr>)"
    using updateField_store_path [of "S\<lparr>store := ?st1[ba := ArrCell (ys @ [VStr []])]\<rparr>"
        i rs ra ps "''SetupDetails''" "VRef ?n"] sel itm(2) i1 r1
    by (simp add: addBulletPoint_def copy lst(2) d1 push_def b1)
  have rem: "removeBulletPoint S j b =
      Inr (S\<lparr>store := ?st1[ba := ArrCell (vsplice1 ys b),
                 ra := ObjCell (AList.update ''SetupDetails'' (VRef ?n) ps)]\<rparr>)"
    using updateField_store_path [of "S\<lparr>store := ?st1[ba := ArrCell (vsplice1 ys b)]\<rparr>"
        i rs ra ps "''SetupDetails''" "VRef ?n"] sel itm(2) i1 r1
    by (simp add: removeBulletPoint_def copy lst(2) d1 splice_def b1)
  let ?st2 = "?st1 @ [ArrCell (vassign_index ys b (VStr v))]"
  let ?q = "ObjCell (AList.update ''BulletPoints'' (VRef (Suc ?n)) qs)"
  have e1: "elems ?st1 (VRef ba) = Inr ys" by (simp add: elems_def b1)
  have d2: "cell_at ?st2 da = Some (ObjCell qs)"
    using cell_at_alloc [OF cell_at_alloc [OF dtl(1), of "[ArrCell xs]"],
        of "[ArrCell (vassign_index ys b (VStr v))]"] .
  have i2: "cell_at (?st2[da := ?q]) (items_ref S) = Some (ArrCell rs)"
    using cell_at_update [OF cell_at_alloc [OF cell_at_alloc [OF itm(1), of "[ArrCell xs]"],
          of "[ArrCell (vassign_index ys b (VStr v))]"], of da ?q] dtl(1) itm(1)
    by (auto simp: cell_at_Some)
  have r2: "cell_at (?st2[da := ?q]) ra = Some (ObjCell ps)"
    using cell_at_update [OF cell_at_alloc [OF cell_at_alloc [OF rcd(1), of "[ArrCell xs]"],
          of "[ArrCell (vassign_index ys b (VStr v))]"], of da ?q] sep(2)
    by auto
  have upd: "updateBulletPoint S j b v =
      Inr (S\<lparr>store := (store S @ [ArrCell xs, ArrCell (vassign_index ys b (VStr v))])
                 [da := ?q, ra := ObjCell (AList.update ''SetupDetails'' (VRef ?n) ps)]\<rparr>)"
    using updateField_store_path [of "S\<lparr>store := ?st2[da := ?q]\<rparr>"
        i rs ra ps "''SetupDetails''" "VRef ?n"] sel itm(2) i2 r2 d2
    by (simp add: updateBulletPoint_def copy lst(2) d1 e1 alloc_def store_prop_def)
  have frame: "\<forall>a<?n. a \<noteq> ra \<and> a \<noteq> ba \<longrightarrow>
      (?st1[ba := ArrCell (ys @ [VStr []]),
            ra := ObjCell (AList.update ''SetupDetails'' (VRef ?n) ps)]) ! a = store S ! a"
    by (simp add: nth_append)
  from add rem upd frame show ?thesis by blast
qed

lemma bullets_store_path:
  "selection bullets_store = Some 0"
  "cell_at (store bullets_store) (items_ref bullets_store) = Some (ArrCell [VRef 1, VRef 7])"
  "vindex [VRef 1, VRef 7] 0 = VRef 1"
  "cell_at (store bullets_store) 1 =
     Some (ObjCell [(''Name'', VStr ''apple''), (''SetupDetails'', VRef 2)])"
  "map_of [(''Name'', VStr ''apple''), (''SetupDetails'', VRef 2)] ''SetupDetails'' = Some (VRef 2)"
  "cell_at (store bullets_store) 2 = Some (ArrCell [VRef 3, VRef 5])"
  "vindex [VRef 3, VRef 5] 0 = VRef 3"
  "cell_at (store bullets_store) 3 =
     Some (ObjCell [(''Category'', VStr ''BIOS''), (''Details'', VStr []), (''BulletPoints'', VRef 4)])"
  "map_of [(''Category'', VStr ''BIOS''), (''Details'', VStr []), (''BulletPoints'', VRef 4)]
     ''BulletPoints'' = Some (VRef 4)"
  "cell_at (store bullets_store) 4 = Some (ArrCell [VStr ''dump it''])"
  "4 \<noteq> items_ref bullets_store"
  "(3::nat) \<noteq> 1"
  by (simp_all add: bullets_store_def cell_at_def vindex_def)

theorem C3_bullet_edits_witness:
  "addBulletPoint bullets_store 0 = Inr bullets_added \<and>
   removeBulletPoint bullets_store 0 0 =
     Inr (bullets_added\<lparr>store := (store bullets_added)[4 := ArrCell []]\<rparr>) \<and>
   store bullets_added ! 6 = store bullets_store ! 6 \<and>
   store bullets_added ! 8 = store bullets_store ! 8"
  using C3_bullet_edits [OF bullets_store_path, of 0 "[]"]
  by (simp add: bullets_store_def bullets_added_def vsplice1_def)

text \<open>
  C3 as stated fails on the store of the example. After \<^verbatim>\<open>addBulletPoint(0)\<close> the first
  setup detail is the object it was (cell 3), its bullet-point list is the container it
  was (cell 4), now one element longer, so the setup-details list of the state before the
  edit (cell 2) shows the new bullet point too; and the bullet-point list of the
  untouched second setup detail is the same container (cell 6) before and after.
\<close>

theorem C3_counterexample:
  "addBulletPoint bullets_store 0 = Inr bullets_added \<and>
   setupDetail_ref bullets_store 0 0 = Inr (VRef 3) \<and>
   setupDetail_ref bullets_added 0 0 = Inr (VRef 3) \<and>
   bulletPoints_ref bullets_store 0 0 = Inr (VRef 4) \<and>
   bulletPoints_ref bullets_added 0 0 = Inr (VRef 4) \<and>
   store bullets_store ! 4 = ArrCell [VStr ''dump it''] \<and>
   store bullets_added ! 4 = ArrCell [VStr ''dump it'', VStr []] \<and>
   store bullets_added ! 2 = store bullets_store ! 2 \<and>
   bulletPoints_ref bullets_store 0 1 = Inr (VRef 6) \<and>
   bulletPoints_ref bullets_added 0 1 = Inr (VRef 6)"
  by (simp add: bullets_store_def bullets_added_def addBulletPoint_def copySetupDetails_def
      selected_record_def load_prop_def elems_def alloc_def push_def updateField_store_def
      store_prop_def cell_at_def vindex_def setupDetail_ref_def bulletPoints_ref_def)

end
